theory Spec2Isabelle
  imports Main
begin

section \<open>The AI receptionist: scheduling engine and call relay\<close>

text \<open>
  The repository holds the scheduling logic twice. The booking service
  (\<^verbatim>\<open>src/lib/services/booking.js\<close>) serves the webhook flow; the two stream
  handlers (\<^verbatim>\<open>websocket-server/src/handlers/mediaStreamHandler.js\<close> and
  \<^verbatim>\<open>exotelStreamHandler.js\<close>) carry their own copies of
  \<^verbatim>\<open>checkAvailability\<close>, \<^verbatim>\<open>bookAppointment\<close> and \<^verbatim>\<open>cancelAppointment\<close>,
  which their dispatcher \<^verbatim>\<open>handleToolCall\<close> calls. The two handlers' copies are
  the same text up to indentation, so one model serves both; the three functions of the
  booking service carry the prefix \<open>booking_\<close>.
\<close>

subsection \<open>What the code takes from its libraries\<close>

text \<open>
  Instants are milliseconds since the epoch, as \<^verbatim>\<open>Date.prototype.getTime\<close> gives
  them. The JavaScript \<^verbatim>\<open>Date\<close> constructor, the record store's parsers of
  timestamps and dates, the time-zone conversion of date-fns-tz and the store's
  \<^verbatim>\<open>ILIKE\<close> operator are not code of this repository: they are parameters of
  the model, and the general theorems hold for all of them; the concrete runs use the
  calendar \<open>january_2024\<close> defined below. \<open>None\<close> is an \<^verbatim>\<open>Invalid Date\<close>,
  respectively a string that the store rejects.
\<close>

type_synonym uuid = nat
type_synonym instant = int

datatype exn = RangeError | TypeError

record env =
  js_Date :: "string \<Rightarrow> instant option"
  getDay :: "instant \<Rightarrow> nat"
  pg_timestamp :: "string \<Rightarrow> instant option"
  pg_date :: "string \<Rightarrow> int option"
  fromZonedTime :: "instant \<Rightarrow> string \<Rightarrow> instant"
  ilike :: "string \<Rightarrow> string \<Rightarrow> bool"

text \<open>A value that may be \<^verbatim>\<open>undefined\<close>, spliced into a template literal.\<close>

definition tmpl :: "string option \<Rightarrow> string" where
  "tmpl s = (case s of None \<Rightarrow> ''undefined'' | Some t \<Rightarrow> t)"

text \<open>\<^verbatim>\<open>x || d\<close> on a number: \<^verbatim>\<open>null\<close> and \<^verbatim>\<open>0\<close> are falsy.\<close>

definition or_default :: "nat option \<Rightarrow> nat \<Rightarrow> nat" where
  "or_default x d = (case x of None \<Rightarrow> d | Some n \<Rightarrow> if n = 0 then d else n)"

text \<open>\<^verbatim>\<open>x || null\<close> and \<^verbatim>\<open>if (x)\<close> on a string: the empty string is falsy.\<close>

definition truthy :: "string option \<Rightarrow> bool" where
  "truthy s = (case s of None \<Rightarrow> False | Some t \<Rightarrow> t \<noteq> [])"

definition or_null :: "string option \<Rightarrow> string option" where
  "or_null s = (if truthy s then s else None)"

definition digit_char :: "nat \<Rightarrow> char" where
  "digit_char d = ''0123456789'' ! d"

fun String_nat :: "nat \<Rightarrow> string" where
  "String_nat n =
     (if n < 10 then [digit_char n] else String_nat (n div 10) @ [digit_char (n mod 10)])"

declare String_nat.simps [simp del]

definition padStart :: "string \<Rightarrow> nat \<Rightarrow> char \<Rightarrow> string" where
  "padStart s n c = replicate (n - length s) c @ s"

fun join :: "string \<Rightarrow> string list \<Rightarrow> string" where
  "join sep [] = []"
| "join sep [x] = x"
| "join sep (x # y # ys) = x @ sep @ join sep (y # ys)"

text \<open>
  \<^verbatim>\<open>toLocaleDateString('en-US', { weekday: w })\<close>: an \<^verbatim>\<open>Invalid Date\<close> prints as
  such before the options are read; otherwise ECMA-402 reads the option
  \<^verbatim>\<open>weekday\<close> with the allowed values \<^verbatim>\<open>narrow\<close>, \<^verbatim>\<open>short\<close> and \<^verbatim>\<open>long\<close>
  and throws a \<^verbatim>\<open>RangeError\<close> for any other string.
\<close>

definition weekday_names :: "string \<Rightarrow> string list" where
  "weekday_names w =
     (if w = ''long''
      then [''Sunday'', ''Monday'', ''Tuesday'', ''Wednesday'', ''Thursday'', ''Friday'', ''Saturday'']
      else if w = ''short'' then [''Sun'', ''Mon'', ''Tue'', ''Wed'', ''Thu'', ''Fri'', ''Sat'']
      else [''S'', ''M'', ''T'', ''W'', ''T'', ''F'', ''S''])"

definition toLocaleDateString :: "env \<Rightarrow> instant option \<Rightarrow> string \<Rightarrow> exn + string" where
  "toLocaleDateString env d w =
     (case d of
        None \<Rightarrow> Inr ''Invalid Date''
      | Some t \<Rightarrow>
          if w \<in> set [''narrow'', ''short'', ''long'']
          then Inr (weekday_names w ! (getDay env t mod 7))
          else Inl RangeError)"

subsection \<open>The record store\<close>

text \<open>
  The tables of the schema, with the columns the scheduling code reads or
  writes. \<open>next_id\<close> stands for \<^verbatim>\<open>uuid_generate_v4()\<close>; \<open>calls_log\<close> records
  every \<^verbatim>\<open>update\<close> the code issues on the table \<^verbatim>\<open>calls\<close>, in order.
  Working hours are the JSON object of the column, with the clock strings
  \<^verbatim>\<open>"HH:MM"\<close> kept as the two numbers \<^verbatim>\<open>split(':').map(Number)\<close> yields;
  durations are natural numbers, as the settings form restricts them.
\<close>

record day_hours =
  dh_enabled :: bool
  dh_start :: "nat \<times> nat"
  dh_end :: "nat \<times> nat"

record business =
  b_id :: uuid
  working_hours :: "(string \<times> day_hours) list option"
  slot_duration_minutes :: "nat option"
  buffer_minutes :: "nat option"
  timezone :: "string option"

record appointment =
  a_id :: uuid
  a_business_id :: uuid
  a_customer_id :: "uuid option"
  a_service_id :: "uuid option"
  a_call_id :: "uuid option"
  a_customer_name :: "string option"
  a_customer_phone :: string
  scheduled_at :: instant
  duration_minutes :: nat
  status :: string
  a_notes :: "string option"

record customer =
  c_id :: uuid
  c_business_id :: uuid
  c_phone :: string
  c_name :: "string option"

record service =
  s_id :: uuid
  s_business_id :: uuid
  s_name :: string

datatype calls_update = Finalize instant string | Outcome string string

record call =
  call_id :: uuid
  ended_at :: "instant option"
  transcript_text :: "string option"
  outcome :: "string option"
  intent_detected :: "string option"

record db =
  businesses :: "business list"
  appointments :: "appointment list"
  customers :: "customer list"
  services :: "service list"
  blackout_dates :: "(uuid \<times> int) list"
  calls :: "call list"
  calls_log :: "(uuid \<times> calls_update) list"
  next_id :: uuid

text \<open>\<^verbatim>\<open>.single()\<close>: the row when exactly one matches, \<^verbatim>\<open>null\<close> otherwise.\<close>

definition single_row :: "'a list \<Rightarrow> 'a option" where
  "single_row rows = (case rows of [r] \<Rightarrow> Some r | _ \<Rightarrow> None)"

definition select_business :: "db \<Rightarrow> uuid \<Rightarrow> business option" where
  "select_business d businessId = single_row (filter (\<lambda>b. b_id b = businessId) (businesses d))"

definition select_blackout :: "env \<Rightarrow> db \<Rightarrow> uuid \<Rightarrow> string option \<Rightarrow> (uuid \<times> int) option" where
  "select_blackout env d businessId date =
     (case pg_date env (tmpl date) of
        None \<Rightarrow> None
      | Some day \<Rightarrow>
          single_row (filter (\<lambda>r. fst r = businessId \<and> snd r = day) (blackout_dates d)))"

text \<open>
  The day's appointments: \<^verbatim>\<open>.gte('scheduled_at', `${date}T00:00:00`)\<close>,
  \<^verbatim>\<open>.lte('scheduled_at', `${date}T23:59:59`)\<close>,
  \<^verbatim>\<open>.in('status', ['confirmed', 'pending'])\<close>; \<^verbatim>\<open>data\<close> is \<^verbatim>\<open>null\<close> when the store
  rejects a bound.
\<close>

definition day_window :: "env \<Rightarrow> string option \<Rightarrow> (instant \<times> instant) option" where
  "day_window env date =
     (case (pg_timestamp env (tmpl date @ ''T00:00:00''),
            pg_timestamp env (tmpl date @ ''T23:59:59'')) of
        (Some lo, Some hi) \<Rightarrow> Some (lo, hi)
      | _ \<Rightarrow> None)"

definition select_appointments :: "env \<Rightarrow> db \<Rightarrow> uuid \<Rightarrow> string option \<Rightarrow> appointment list option" where
  "select_appointments env d businessId date =
     (case day_window env date of
        None \<Rightarrow> None
      | Some (lo, hi) \<Rightarrow>
          Some (filter (\<lambda>a. a_business_id a = businessId \<and> lo \<le> scheduled_at a \<and>
                             scheduled_at a \<le> hi \<and> status a \<in> set [''confirmed'', ''pending''])
                  (appointments d)))"

subsection \<open>Slot generation\<close>

definition slotTimeStr :: "nat \<Rightarrow> string" where
  "slotTimeStr currentTime =
     padStart (String_nat (currentTime div 60)) 2 CHR ''0'' @ '':'' @
     padStart (String_nat (currentTime mod 60)) 2 CHR ''0''"

text \<open>
  The interval test of the loop body. A comparison with an \<^verbatim>\<open>Invalid Date\<close> is
  false, and \<^verbatim>\<open>appointments?.some(...)\<close> is \<^verbatim>\<open>undefined\<close>, hence no conflict, when
  the query gave \<^verbatim>\<open>null\<close>.
\<close>

definition aptEnd :: "appointment \<Rightarrow> instant" where
  "aptEnd apt = scheduled_at apt + int (or_default (Some (duration_minutes apt)) 30) * 60 * 1000"

definition hasConflict :: "env \<Rightarrow> string option \<Rightarrow> nat \<Rightarrow> nat \<Rightarrow> appointment list option \<Rightarrow> bool" where
  "hasConflict env date slotDuration currentTime appts =
     (case appts of
        None \<Rightarrow> False
      | Some as \<Rightarrow>
          (case js_Date env (tmpl date @ ''T'' @ slotTimeStr currentTime @ '':00'') of
             None \<Rightarrow> False
           | Some slotStart \<Rightarrow>
               list_ex (\<lambda>apt. slotStart < aptEnd apt \<and>
                              slotStart + int slotDuration * 60 * 1000 > scheduled_at apt) as))"

lemma or_default_pos: "0 < d \<Longrightarrow> 0 < or_default x d"
  by (simp add: or_default_def split: option.splits)

function slot_loop ::
  "env \<Rightarrow> string option \<Rightarrow> business \<Rightarrow> appointment list option \<Rightarrow> nat \<Rightarrow> nat \<Rightarrow> string list
     \<Rightarrow> string list" where
  "slot_loop env date biz appts endTime currentTime slots =
     (let slotDuration = or_default (slot_duration_minutes biz) 30;
          buffer = or_default (buffer_minutes biz) 10
      in if currentTime + slotDuration \<le> endTime
         then slot_loop env date biz appts endTime (currentTime + slotDuration + buffer)
                (if hasConflict env date slotDuration currentTime appts then slots
                 else slots @ [slotTimeStr currentTime])
         else slots)"
  by pat_completeness auto

termination slot_loop
proof (relation "measure (\<lambda>(env, date, biz, appts, endTime, currentTime, slots). Suc endTime - currentTime)",
    goal_cases)
  case 1
  show ?case by simp
next
  case (2 env date biz appts endTime currentTime slots slotDuration buffer)
  have "0 < or_default (buffer_minutes biz) 10"
    by (rule or_default_pos) simp
  with 2 show ?case by simp
qed

declare slot_loop.simps [simp del]

definition generate_slots ::
  "env \<Rightarrow> string option \<Rightarrow> business \<Rightarrow> day_hours \<Rightarrow> appointment list option \<Rightarrow> string list" where
  "generate_slots env date biz dayHours appts =
     (let (startHour, startMin) = dh_start dayHours;
          (endHour, endMin) = dh_end dayHours
      in slot_loop env date biz appts (endHour * 60 + endMin) (startHour * 60 + startMin) [])"

subsection \<open>Results of the tool functions\<close>

text \<open>
  Each tool function returns an object literal; \<open>obj\<close> is the empty object and a
  field that the literal does not set stays \<open>None\<close>.
\<close>

record tool_result =
  r_error :: "string option"
  r_success :: "bool option"
  r_available :: "bool option"
  r_date :: "string option"
  r_slots :: "string list option"
  r_message :: "string option"
  r_appointment_id :: "uuid option"
  r_appointment :: "appointment option"
  r_cancelled_count :: "nat option"
  r_cancelled :: "appointment list option"

definition obj :: tool_result where
  "obj = \<lparr>r_error = None, r_success = None, r_available = None, r_date = None, r_slots = None,
          r_message = None, r_appointment_id = None, r_appointment = None,
          r_cancelled_count = None, r_cancelled = None\<rparr>"

definition slots_summary :: "string list \<Rightarrow> string" where
  "slots_summary slots =
     join '', '' (take 5 slots) @
     (if length slots > 5 then '' and '' @ String_nat (length slots - 5) @ '' more'' else [])"

definition new_Date :: "env \<Rightarrow> string option \<Rightarrow> instant option" where
  "new_Date env s = (case s of None \<Rightarrow> None | Some t \<Rightarrow> js_Date env t)"

definition lookup_hours :: "business \<Rightarrow> string \<Rightarrow> day_hours option" where
  "lookup_hours biz dayOfWeek =
     (case working_hours biz of None \<Rightarrow> None | Some wh \<Rightarrow> map_of wh dayOfWeek)"

subsection \<open>Availability in the booking service\<close>

definition days :: "string list" where
  "days = [''sunday'', ''monday'', ''tuesday'', ''wednesday'', ''thursday'', ''friday'', ''saturday'']"

definition booking_dayOfWeek :: "env \<Rightarrow> string option \<Rightarrow> string option" where
  "booking_dayOfWeek env dateStr =
     (case new_Date env dateStr of
        None \<Rightarrow> None
      | Some t \<Rightarrow> if getDay env t < length days then Some (days ! getDay env t) else None)"

definition booking_checkAvailability :: "env \<Rightarrow> db \<Rightarrow> uuid \<Rightarrow> string option \<Rightarrow> tool_result" where
  "booking_checkAvailability env d businessId dateStr =
     (case select_business d businessId of
        None \<Rightarrow>
          obj\<lparr>r_error := Some ''Business not found'', r_available := Some False, r_slots := Some []\<rparr>
      | Some biz \<Rightarrow>
          if select_blackout env d businessId dateStr \<noteq> None
          then obj\<lparr>r_available := Some False,
                   r_message := Some ''Sorry, we are closed on this date.'',
                   r_slots := Some []\<rparr>
          else
            let dayOfWeek = booking_dayOfWeek env dateStr in
            (case lookup_hours biz (tmpl dayOfWeek) of
               None \<Rightarrow>
                 obj\<lparr>r_available := Some False,
                     r_message := Some (''Sorry, we are closed on '' @ tmpl dayOfWeek @ ''s.''),
                     r_slots := Some []\<rparr>
             | Some dayHours \<Rightarrow>
                 if \<not> dh_enabled dayHours
                 then obj\<lparr>r_available := Some False,
                          r_message := Some (''Sorry, we are closed on '' @ tmpl dayOfWeek @ ''s.''),
                          r_slots := Some []\<rparr>
                 else
                   let appts = select_appointments env d businessId dateStr;
                       slots = generate_slots env dateStr biz dayHours appts
                   in obj\<lparr>r_available := Some (length slots > 0),
                          r_date := dateStr,
                          r_slots := Some slots,
                          r_message := Some (if length slots > 0
                            then ''Available times: '' @ slots_summary slots
                            else ''No available slots on this date.'')\<rparr>))"

subsection \<open>Availability in the stream handlers\<close>

text \<open>
  The body of the \<^verbatim>\<open>try\<close> block, where \<open>Inl\<close> is a thrown exception, and the
  function with its \<^verbatim>\<open>catch\<close>. The weekday is asked for with the option value
  \<^verbatim>\<open>'lowercase'\<close>.
\<close>

definition checkAvailability_try :: "env \<Rightarrow> db \<Rightarrow> uuid \<Rightarrow> string option \<Rightarrow> exn + tool_result" where
  "checkAvailability_try env d businessId date =
     (case select_business d businessId of
        None \<Rightarrow> Inr (obj\<lparr>r_error := Some ''Business not found''\<rparr>)
      | Some biz \<Rightarrow>
          let appts = select_appointments env d businessId date in
          if select_blackout env d businessId date \<noteq> None
          then Inr (obj\<lparr>r_available := Some False,
                        r_message := Some ''Sorry, we are closed on this date.'',
                        r_slots := Some []\<rparr>)
          else
            (case toLocaleDateString env (new_Date env date) ''lowercase'' of
               Inl e \<Rightarrow> Inl e
             | Inr dayOfWeek \<Rightarrow>
                 (case lookup_hours biz dayOfWeek of
                    None \<Rightarrow>
                      Inr (obj\<lparr>r_available := Some False,
                               r_message := Some ''Sorry, we are closed on this day.'',
                               r_slots := Some []\<rparr>)
                  | Some dayHours \<Rightarrow>
                      if \<not> dh_enabled dayHours
                      then Inr (obj\<lparr>r_available := Some False,
                                    r_message := Some ''Sorry, we are closed on this day.'',
                                    r_slots := Some []\<rparr>)
                      else
                        let slots = generate_slots env date biz dayHours appts
                        in Inr (obj\<lparr>r_available := Some (length slots > 0),
                                    r_date := date,
                                    r_slots := Some slots,
                                    r_message := Some (if length slots > 0
                                      then ''Available times on '' @ tmpl date @ '': '' @
                                           slots_summary slots
                                      else ''No available slots on this date.'')\<rparr>))))"

definition checkAvailability :: "env \<Rightarrow> db \<Rightarrow> uuid \<Rightarrow> string option \<Rightarrow> tool_result" where
  "checkAvailability env d businessId date =
     (case checkAvailability_try env d businessId date of
        Inl err \<Rightarrow> obj\<lparr>r_error := Some ''Failed to check availability''\<rparr>
      | Inr r \<Rightarrow> r)"

subsection \<open>Writing to the store\<close>

text \<open>
  An \<^verbatim>\<open>insert\<close> succeeds when the constraints of the schema hold: the business
  that the row references exists, the columns declared \<^verbatim>\<open>NOT NULL\<close> have a value
  (an \<^verbatim>\<open>undefined\<close> property is left out of the request body), the store can read
  the timestamp, and \<^verbatim>\<open>UNIQUE(business_id, phone)\<close> holds for customers. A column
  the row does not give takes its default: \<^verbatim>\<open>duration_minutes INT NOT NULL DEFAULT 30\<close>.
  A failed statement leaves the store as it was and yields no row.
\<close>

definition business_exists :: "db \<Rightarrow> uuid \<Rightarrow> bool" where
  "business_exists d businessId = list_ex (\<lambda>b. b_id b = businessId) (businesses d)"

definition select_customer :: "db \<Rightarrow> uuid \<Rightarrow> string option \<Rightarrow> customer option" where
  "select_customer d businessId phone =
     single_row (filter (\<lambda>c. c_business_id c = businessId \<and> c_phone c = tmpl phone) (customers d))"

definition insert_customer :: "db \<Rightarrow> uuid \<Rightarrow> string option \<Rightarrow> string option \<Rightarrow> db \<times> customer option" where
  "insert_customer d businessId phone name =
     (case phone of
        None \<Rightarrow> (d, None)
      | Some p \<Rightarrow>
          if business_exists d businessId \<and>
             \<not> list_ex (\<lambda>c. c_business_id c = businessId \<and> c_phone c = p) (customers d)
          then let c = \<lparr>c_id = next_id d, c_business_id = businessId, c_phone = p, c_name = name\<rparr>
               in (d\<lparr>customers := customers d @ [c], next_id := Suc (next_id d)\<rparr>, Some c)
          else (d, None))"

definition update_customer_name :: "db \<Rightarrow> uuid \<Rightarrow> string option \<Rightarrow> db" where
  "update_customer_name d customerId name =
     d\<lparr>customers := map (\<lambda>c. if c_id c = customerId then c\<lparr>c_name := name\<rparr> else c) (customers d)\<rparr>"

definition select_service :: "env \<Rightarrow> db \<Rightarrow> uuid \<Rightarrow> string \<Rightarrow> service option" where
  "select_service env d businessId svc =
     single_row (filter (\<lambda>s. s_business_id s = businessId \<and> ilike env (''%'' @ svc @ ''%'') (s_name s))
                   (services d))"

definition insert_appointment ::
  "db \<Rightarrow> uuid \<Rightarrow> uuid option \<Rightarrow> uuid option \<Rightarrow> uuid option \<Rightarrow> string option \<Rightarrow> string option
     \<Rightarrow> instant option \<Rightarrow> nat option \<Rightarrow> string option \<Rightarrow> db \<times> appointment option" where
  "insert_appointment d businessId customerId serviceId callId name phone sched duration nts =
     (case (phone, sched) of
        (Some p, Some t) \<Rightarrow>
          if business_exists d businessId
          then let a = \<lparr>a_id = next_id d, a_business_id = businessId, a_customer_id = customerId,
                         a_service_id = serviceId, a_call_id = callId, a_customer_name = name,
                         a_customer_phone = p, scheduled_at = t,
                         duration_minutes = (case duration of None \<Rightarrow> 30 | Some n \<Rightarrow> n),
                         status = ''confirmed'', a_notes = nts\<rparr>
               in (d\<lparr>appointments := appointments d @ [a], next_id := Suc (next_id d)\<rparr>, Some a)
          else (d, None)
      | _ \<Rightarrow> (d, None))"

definition update_call :: "db \<Rightarrow> uuid \<Rightarrow> calls_update \<Rightarrow> db" where
  "update_call d callId u =
     d\<lparr>calls := map (\<lambda>c. if call_id c = callId
                          then (case u of
                                  Finalize t tr \<Rightarrow> c\<lparr>ended_at := Some t, transcript_text := Some tr\<rparr>
                                | Outcome oc intent \<Rightarrow> c\<lparr>outcome := Some oc, intent_detected := Some intent\<rparr>)
                          else c) (calls d),
       calls_log := calls_log d @ [(callId, u)]\<rparr>"

subsection \<open>Arguments of the tools\<close>

text \<open>
  The object that \<^verbatim>\<open>JSON.parse\<close> makes of the model's argument string; a property
  the model left out is \<open>None\<close>. \<open>arg_callId\<close> and \<open>arg_appointmentId\<close> are the two
  further properties that the booking service reads. The stream handlers pass on what
  \<^verbatim>\<open>JSON.parse\<close> returns without a check: there the arguments are a
  \<open>tool_args option\<close>, where \<open>None\<close> is the JSON value \<^verbatim>\<open>null\<close>, of which no property
  can be read. Any other JSON value that is not an object (a number, a string, a boolean,
  an array) has none of the properties read and is the object without properties.
\<close>

record tool_args =
  arg_customer_name :: "string option"
  arg_customer_phone :: "string option"
  arg_date :: "string option"
  arg_time :: "string option"
  arg_service :: "string option"
  arg_notes :: "string option"
  arg_callId :: "uuid option"
  arg_appointmentId :: "uuid option"

definition confirmation_message :: "tool_args \<Rightarrow> string" where
  "confirmation_message args =
     ''Appointment confirmed for '' @ tmpl (arg_customer_name args) @ '' on '' @
     tmpl (arg_date args) @ '' at '' @ tmpl (arg_time args)"

subsection \<open>Booking in the stream handlers\<close>

text \<open>
  The body of the \<^verbatim>\<open>try\<close> block and the function with its \<^verbatim>\<open>catch\<close>. The block
  begins by destructuring \<^verbatim>\<open>args\<close>, which throws a \<^verbatim>\<open>TypeError\<close> on \<^verbatim>\<open>null\<close>
  before anything is written; no later statement throws (the store's client reports a
  failure in its result). The row gives neither \<^verbatim>\<open>service_id\<close> nor
  \<^verbatim>\<open>duration_minutes\<close>.
\<close>

definition find_or_create_customer :: "db \<Rightarrow> uuid \<Rightarrow> tool_args \<Rightarrow> db \<times> customer option" where
  "find_or_create_customer d businessId args =
     (let found = select_customer d businessId (arg_customer_phone args)
      in if found = None
         then insert_customer d businessId (arg_customer_phone args) (arg_customer_name args)
         else (d, found))"

definition bookAppointment_try ::
  "env \<Rightarrow> db \<Rightarrow> uuid \<Rightarrow> uuid option \<Rightarrow> tool_args option \<Rightarrow> exn + db \<times> tool_result" where
  "bookAppointment_try env d businessId callId args =
     (case args of
        None \<Rightarrow> Inl TypeError
      | Some props \<Rightarrow>
          Inr (let (d1, customer) = find_or_create_customer d businessId props;
                   scheduledAt = tmpl (arg_date props) @ ''T'' @ tmpl (arg_time props) @ '':00'';
                   (d2, appointment) =
                     insert_appointment d1 businessId (map_option c_id customer) None callId
                       (arg_customer_name props) (arg_customer_phone props)
                       (pg_timestamp env scheduledAt) None (or_null (arg_notes props))
               in case appointment of
                    None \<Rightarrow>
                      (d2, obj\<lparr>r_success := Some False,
                               r_error := Some ''Failed to book appointment''\<rparr>)
                  | Some a \<Rightarrow>
                      ((case callId of
                          None \<Rightarrow> d2
                        | Some c \<Rightarrow> update_call d2 c (Outcome ''booked'' ''book_appointment'')),
                       obj\<lparr>r_success := Some True,
                           r_message := Some (confirmation_message props),
                           r_appointment_id := Some (a_id a)\<rparr>)))"

definition bookAppointment ::
  "env \<Rightarrow> db \<Rightarrow> uuid \<Rightarrow> uuid option \<Rightarrow> tool_args option \<Rightarrow> db \<times> tool_result" where
  "bookAppointment env d businessId callId args =
     (case bookAppointment_try env d businessId callId args of
        Inl err \<Rightarrow> (d, obj\<lparr>r_success := Some False, r_error := Some ''Failed to book appointment''\<rparr>)
      | Inr result \<Rightarrow> result)"

subsection \<open>Booking in the booking service\<close>

text \<open>
  The service has no \<^verbatim>\<open>try\<close>: \<^verbatim>\<open>toISOString\<close> of an \<^verbatim>\<open>Invalid Date\<close> throws a
  \<^verbatim>\<open>RangeError\<close> to the caller, after the customer has been written.
\<close>

definition slots_include :: "string list \<Rightarrow> string option \<Rightarrow> bool" where
  "slots_include slots t = (case t of None \<Rightarrow> False | Some x \<Rightarrow> x \<in> set slots)"

text \<open>The blocks "Get or create customer" and "Get service ID if service name provided".\<close>

definition get_or_create_customer :: "db \<Rightarrow> uuid \<Rightarrow> tool_args \<Rightarrow> db \<times> uuid option" where
  "get_or_create_customer d businessId args =
     (case select_customer d businessId (arg_customer_phone args) of
        Some existingCustomer \<Rightarrow>
          (if truthy (arg_customer_name args)
           then update_customer_name d (c_id existingCustomer) (arg_customer_name args)
           else d,
           Some (c_id existingCustomer))
      | None \<Rightarrow>
          (let (d', newCustomer) =
                 insert_customer d businessId (arg_customer_phone args) (arg_customer_name args)
           in (d', map_option c_id newCustomer)))"

definition get_service_id :: "env \<Rightarrow> db \<Rightarrow> uuid \<Rightarrow> tool_args \<Rightarrow> uuid option" where
  "get_service_id env d businessId args =
     (if truthy (arg_service args)
      then map_option s_id (select_service env d businessId (tmpl (arg_service args)))
      else None)"

definition booking_bookAppointment ::
  "env \<Rightarrow> db \<Rightarrow> uuid \<Rightarrow> tool_args \<Rightarrow> db \<times> (exn + tool_result)" where
  "booking_bookAppointment env d businessId args =
     (case r_slots (booking_checkAvailability env d businessId (arg_date args)) of
        None \<Rightarrow> (d, Inl TypeError)
      | Some slots \<Rightarrow>
          if \<not> slots_include slots (arg_time args)
          then (d, Inr (obj\<lparr>r_success := Some False,
                            r_error := Some ''This time slot is no longer available. Please choose another time.''\<rparr>))
          else
            let (d1, customerId) = get_or_create_customer d businessId args;
                serviceId = get_service_id env d1 businessId args;
                biz = select_business d1 businessId;
                localDateTime = tmpl (arg_date args) @ ''T'' @ tmpl (arg_time args) @ '':00'';
                tz = (case biz of
                        None \<Rightarrow> ''America/New_York''
                      | Some b \<Rightarrow> if truthy (timezone b) then tmpl (timezone b)
                                  else ''America/New_York'')
            in (case js_Date env localDateTime of
                  None \<Rightarrow> (d1, Inl RangeError)
                | Some t \<Rightarrow>
                    let (d2, appointment) =
                          insert_appointment d1 businessId customerId serviceId (arg_callId args)
                            (arg_customer_name args) (arg_customer_phone args)
                            (Some (fromZonedTime env t tz))
                            (Some (or_default (case biz of None \<Rightarrow> None
                                               | Some b \<Rightarrow> slot_duration_minutes b) 30))
                            (or_null (arg_notes args))
                    in (case appointment of
                          None \<Rightarrow>
                            (d2, Inr (obj\<lparr>r_success := Some False,
                                          r_error := Some ''Failed to create appointment''\<rparr>))
                        | Some a \<Rightarrow>
                            (d2, Inr (obj\<lparr>r_success := Some True,
                                          r_message := Some (confirmation_message args),
                                          r_appointment := Some a\<rparr>)))))"

subsection \<open>Cancellation\<close>

text \<open>
  \<^verbatim>\<open>update({ status: 'cancelled' })\<close> with its filters and \<^verbatim>\<open>.select()\<close>: the rows
  that match are rewritten and returned. The date window is added when \<^verbatim>\<open>date\<close> is
  truthy; a bound that the store cannot read fails the statement.
\<close>

definition cancel_window :: "env \<Rightarrow> string option \<Rightarrow> (instant \<times> instant) option option" where
  "cancel_window env date =
     (if truthy date then map_option Some (day_window env date) else Some None)"

definition in_window :: "(instant \<times> instant) option \<Rightarrow> appointment \<Rightarrow> bool" where
  "in_window w a = (case w of None \<Rightarrow> True | Some (lo, hi) \<Rightarrow> lo \<le> scheduled_at a \<and> scheduled_at a \<le> hi)"

definition cancel_rows :: "db \<Rightarrow> (appointment \<Rightarrow> bool) \<Rightarrow> db \<times> appointment list" where
  "cancel_rows d hit =
     (d\<lparr>appointments := map (\<lambda>a. if hit a then a\<lparr>status := ''cancelled''\<rparr> else a) (appointments d)\<rparr>,
      map (\<lambda>a. a\<lparr>status := ''cancelled''\<rparr>) (filter hit (appointments d)))"

definition cancel_hit :: "uuid \<Rightarrow> string option \<Rightarrow> (instant \<times> instant) option \<Rightarrow> appointment \<Rightarrow> bool" where
  "cancel_hit businessId phone w a =
     (a_business_id a = businessId \<and> a_customer_phone a = tmpl phone \<and>
      status a = ''confirmed'' \<and> in_window w a)"

text \<open>
  In the stream handlers the statement stands in a \<^verbatim>\<open>try\<close> block that begins by
  destructuring \<^verbatim>\<open>args\<close>; the \<^verbatim>\<open>catch\<close> names its failure under \<^verbatim>\<open>error\<close>.
\<close>

definition cancelAppointment_try ::
  "env \<Rightarrow> db \<Rightarrow> uuid \<Rightarrow> tool_args option \<Rightarrow> exn + db \<times> tool_result" where
  "cancelAppointment_try env d businessId args =
     (case args of
        None \<Rightarrow> Inl TypeError
      | Some props \<Rightarrow>
          Inr (case cancel_window env (arg_date props) of
                 None \<Rightarrow>
                   (d, obj\<lparr>r_success := Some False,
                           r_message := Some ''No appointment found to cancel''\<rparr>)
               | Some w \<Rightarrow>
                   let (d', data) = cancel_rows d (cancel_hit businessId (arg_customer_phone props) w)
                   in if length data = 0
                      then (d', obj\<lparr>r_success := Some False,
                                    r_message := Some ''No appointment found to cancel''\<rparr>)
                      else (d', obj\<lparr>r_success := Some True,
                                    r_message := Some ''Appointment cancelled successfully'',
                                    r_cancelled_count := Some (length data)\<rparr>)))"

definition cancelAppointment :: "env \<Rightarrow> db \<Rightarrow> uuid \<Rightarrow> tool_args option \<Rightarrow> db \<times> tool_result" where
  "cancelAppointment env d businessId args =
     (case cancelAppointment_try env d businessId args of
        Inl err \<Rightarrow> (d, obj\<lparr>r_success := Some False, r_error := Some ''Failed to cancel appointment''\<rparr>)
      | Inr result \<Rightarrow> result)"

definition booking_cancelAppointment :: "env \<Rightarrow> db \<Rightarrow> uuid \<Rightarrow> tool_args \<Rightarrow> db \<times> tool_result" where
  "booking_cancelAppointment env d businessId args =
     (case arg_appointmentId args of
        Some appointmentId \<Rightarrow>
          (let (d', data) =
                 cancel_rows d (\<lambda>a. a_business_id a = businessId \<and> status a = ''confirmed'' \<and>
                                     a_id a = appointmentId)
           in if length data = 0
              then (d', obj\<lparr>r_success := Some False, r_error := Some ''No appointment found to cancel''\<rparr>)
              else (d', obj\<lparr>r_success := Some True,
                            r_message := Some (''Cancelled '' @ String_nat (length data) @ '' appointment(s)''),
                            r_cancelled := Some data\<rparr>))
      | None \<Rightarrow>
          if truthy (arg_customer_phone args)
          then (case cancel_window env (arg_date args) of
                  None \<Rightarrow>
                    (d, obj\<lparr>r_success := Some False, r_error := Some ''Failed to cancel appointment''\<rparr>)
                | Some w \<Rightarrow>
                    let (d', data) = cancel_rows d (cancel_hit businessId (arg_customer_phone args) w)
                    in if length data = 0
                       then (d', obj\<lparr>r_success := Some False,
                                     r_error := Some ''No appointment found to cancel''\<rparr>)
                       else (d', obj\<lparr>r_success := Some True,
                                     r_message := Some (''Cancelled '' @ String_nat (length data) @
                                                        '' appointment(s)''),
                                     r_cancelled := Some data\<rparr>))
          else (d, obj\<lparr>r_success := Some False,
                      r_error := Some ''Please provide appointment ID or customer phone''\<rparr>))"

subsection \<open>The dispatcher of the stream handlers\<close>

text \<open>
  \<^verbatim>\<open>handleToolCall\<close> has no \<^verbatim>\<open>try\<close> of its own: \<open>Inl\<close> is an exception that
  leaves it. The case \<^verbatim>\<open>check_availability\<close> reads \<^verbatim>\<open>args.date\<close> before it calls
  \<^verbatim>\<open>checkAvailability\<close>, the function with its \<^verbatim>\<open>catch\<close>; the other cases hand
  \<^verbatim>\<open>args\<close> on or do not read it.
\<close>

definition handleToolCall ::
  "env \<Rightarrow> db \<Rightarrow> string \<Rightarrow> tool_args option \<Rightarrow> uuid \<Rightarrow> uuid option \<Rightarrow> exn + db \<times> tool_result" where
  "handleToolCall env d toolName args businessId callId =
     (if toolName = ''check_availability''
      then (case args of
              None \<Rightarrow> Inl TypeError
            | Some props \<Rightarrow> Inr (d, checkAvailability env d businessId (arg_date props)))
      else if toolName = ''book_appointment''
      then Inr (bookAppointment env d businessId callId args)
      else if toolName = ''cancel_appointment''
      then Inr (cancelAppointment env d businessId args)
      else if toolName = ''transfer_to_human''
      then Inr (d, obj\<lparr>r_success := Some True,
                       r_message := Some ''Transferring to human staff. Please hold.''\<rparr>)
      else Inr (d, obj\<lparr>r_error := Some ''Unknown tool''\<rparr>))"

subsection \<open>The call session\<close>

text \<open>
  The variables that \<^verbatim>\<open>handleMediaStream\<close> and \<^verbatim>\<open>handleExotelStream\<close> close over,
  with the store and what has been sent on the model connection. \<open>openaiWs\<close> is
  \<open>None\<close> while the variable is \<^verbatim>\<open>null\<close> and otherwise the \<^verbatim>\<open>readyState\<close> of the
  connection. Each callback runs as one step; \<open>now\<close> is the clock that
  \<^verbatim>\<open>new Date().toISOString()\<close> reads.
\<close>

datatype ready_state = CONNECTING | OPEN | CLOSING | CLOSED

datatype openai_msg =
    SessionUpdate string
  | ResponseCreate
  | InputAudioBufferAppend "string option"

record start_data =
  st_streamSid :: "string option"
  st_callSid :: "string option"
  st_businessId :: "uuid option"

record media_data =
  payload :: "string option"
  chunk :: "string option"

record stream_msg =
  event :: string
  msg_start :: "start_data option"
  msg_media :: "media_data option"
  msg_stream_sid :: "string option"

record session =
  streamSid :: "string option"
  callSid :: "string option"
  businessId :: "uuid option"
  business :: "business option"
  callId :: "uuid option"
  openaiWs :: "ready_state option"
  transcript :: "(string \<times> string option) list"
  sequenceNumber :: nat
  openai_out :: "openai_msg list"
  socket_closed :: bool
  has_api_key :: bool
  store :: db

definition transcript_str :: "(string \<times> string option) list \<Rightarrow> string" where
  "transcript_str tr = join [CHR 0x0A] (map (\<lambda>(role, content). role @ '': '' @ tmpl content) tr)"

text \<open>
  \<^verbatim>\<open>calls.business_id\<close> is \<^verbatim>\<open>NOT NULL REFERENCES businesses\<close>, and the migration's
  check asks for a call sid.
\<close>

definition insert_call :: "db \<Rightarrow> uuid option \<Rightarrow> string option \<Rightarrow> db \<times> uuid option" where
  "insert_call d bid sid =
     (case (bid, sid) of
        (Some b, Some x) \<Rightarrow>
          if business_exists d b
          then (d\<lparr>calls := calls d @ [\<lparr>call_id = next_id d, ended_at = None, transcript_text = None,
                                        outcome = Some ''inquiry'', intent_detected = None\<rparr>],
                  next_id := Suc (next_id d)\<rparr>, Some (next_id d))
          else (d, None)
      | _ \<Rightarrow> (d, None))"

definition ws_close :: "ready_state \<Rightarrow> ready_state" where
  "ws_close st = (if st = CLOSED then CLOSED else CLOSING)"

text \<open>The update of the call record that both ways of ending a call write.\<close>

definition final_update :: "instant \<Rightarrow> session \<Rightarrow> session" where
  "final_update now s =
     (case callId s of
        None \<Rightarrow> s
      | Some c \<Rightarrow> s\<lparr>store := update_call (store s) c (Finalize now (transcript_str (transcript s)))\<rparr>)"

definition close_openai :: "session \<Rightarrow> session" where
  "close_openai s =
     (case openaiWs s of None \<Rightarrow> s | Some st \<Rightarrow> s\<lparr>openaiWs := Some (ws_close st)\<rparr>)"

definition fetch_business :: "session \<Rightarrow> session" where
  "fetch_business s =
     (case businessId s of
        None \<Rightarrow> s
      | Some b \<Rightarrow> s\<lparr>business := select_business (store s) b\<rparr>)"

definition create_call :: "session \<Rightarrow> session" where
  "create_call s =
     (let (d, callData) = insert_call (store s) (businessId s) (callSid s)
      in (case callData of
            None \<Rightarrow> s\<lparr>store := d\<rparr>
          | Some c \<Rightarrow> s\<lparr>store := d, callId := Some c\<rparr>))"

text \<open>
  \<^verbatim>\<open>socket.on('message')\<close> of \<^verbatim>\<open>handleMediaStream\<close>. Reading a property of a
  missing \<^verbatim>\<open>data.start\<close> or \<^verbatim>\<open>data.media\<close> throws into the callback's \<^verbatim>\<open>catch\<close>,
  which logs and leaves the state as it is at that point.
\<close>

definition twilio_on_message :: "instant \<Rightarrow> session \<Rightarrow> stream_msg \<Rightarrow> session" where
  "twilio_on_message now s data =
     (if event data = ''connected'' then s
      else if event data = ''start'' then
        (case msg_start data of
           None \<Rightarrow> s
         | Some st \<Rightarrow>
             (create_call (fetch_business (s\<lparr>streamSid := st_streamSid st, callSid := st_callSid st\<rparr>)))
               \<lparr>openaiWs := Some CONNECTING\<rparr>)
      else if event data = ''media'' then
        (if openaiWs s = Some OPEN
         then (case msg_media data of
                 None \<Rightarrow> s
               | Some m \<Rightarrow> s\<lparr>openai_out := openai_out s @ [InputAudioBufferAppend (payload m)]\<rparr>)
         else s)
      else if event data = ''stop'' then close_openai (final_update now s)
      else s)"

definition twilio_on_close :: "instant \<Rightarrow> session \<Rightarrow> session" where
  "twilio_on_close now s = final_update now (close_openai s)"

text \<open>
  \<^verbatim>\<open>socket.on('message')\<close> of \<^verbatim>\<open>handleExotelStream\<close>: optional chaining replaces the
  throwing reads, the business id may come from the custom parameters, a missing API
  key closes the provider's socket, and a frame needs a truthy \<^verbatim>\<open>chunk\<close>.
\<close>

definition exotel_on_message :: "instant \<Rightarrow> session \<Rightarrow> stream_msg \<Rightarrow> session" where
  "exotel_on_message now s data =
     (if event data = ''connected'' then s
      else if event data = ''start'' then
        (let st = msg_start data;
             sid = (case (case st of None \<Rightarrow> None | Some x \<Rightarrow> or_null (st_streamSid x)) of
                      None \<Rightarrow> msg_stream_sid data
                    | Some x \<Rightarrow> Some x);
             s1 = s\<lparr>streamSid := sid,
                    callSid := (case st of None \<Rightarrow> None | Some x \<Rightarrow> st_callSid x)\<rparr>;
             s2 = (if businessId s1 = None
                   then s1\<lparr>businessId := (case st of None \<Rightarrow> None | Some x \<Rightarrow> st_businessId x)\<rparr>
                   else s1);
             s3 = create_call (fetch_business s2)
         in if \<not> has_api_key s3 then s3\<lparr>socket_closed := True\<rparr>
            else s3\<lparr>openaiWs := Some CONNECTING\<rparr>)
      else if event data = ''media'' then
        (if openaiWs s = Some OPEN \<and>
            truthy (case msg_media data of None \<Rightarrow> None | Some m \<Rightarrow> chunk m)
         then s\<lparr>openai_out := openai_out s @
                  [InputAudioBufferAppend (case msg_media data of None \<Rightarrow> None | Some m \<Rightarrow> chunk m)]\<rparr>
         else s)
      else if event data = ''dtmf'' then s
      else if event data = ''stop'' then close_openai (final_update now s)
      else s)"

definition exotel_on_close :: "instant \<Rightarrow> session \<Rightarrow> session" where
  "exotel_on_close now s = final_update now (close_openai s)"

text \<open>
  The callbacks of the model connection that touch the session's variables: the
  connection opens and is configured, a transcript of either party is appended, the
  connection closes.
\<close>

definition openai_on_open :: "string \<Rightarrow> session \<Rightarrow> session" where
  "openai_on_open audio_format s =
     s\<lparr>openaiWs := Some OPEN,
       openai_out := openai_out s @ [SessionUpdate audio_format, ResponseCreate]\<rparr>"

definition openai_on_transcript :: "string \<Rightarrow> string option \<Rightarrow> session \<Rightarrow> session" where
  "openai_on_transcript role text s = s\<lparr>transcript := transcript s @ [(role, text)]\<rparr>"

definition openai_on_close :: "session \<Rightarrow> session" where
  "openai_on_close s = s\<lparr>openaiWs := Some CLOSED\<rparr>"

definition new_session :: "db \<Rightarrow> uuid option \<Rightarrow> bool \<Rightarrow> session" where
  "new_session d bid key =
     \<lparr>streamSid = None, callSid = None, businessId = bid, business = None, callId = None,
      openaiWs = None, transcript = [], sequenceNumber = 0, openai_out = [],
      socket_closed = False, has_api_key = key, store = d\<rparr>"

subsection \<open>A concrete calendar\<close>

text \<open>
  For the concrete runs below: an environment that knows the dates of January 2024
  (\<^verbatim>\<open>2024-01-01\<close> was a Monday), counts instants from the first of them and
  keeps one time zone throughout.
\<close>

definition digit_val :: "char \<Rightarrow> nat option" where
  "digit_val c = (if c \<in> set ''0123456789'' then Some (of_char c - 48) else None)"

definition two_digits :: "string \<Rightarrow> nat option" where
  "two_digits s =
     (case s of
        [a, b] \<Rightarrow> (case (digit_val a, digit_val b) of
                     (Some x, Some y) \<Rightarrow> Some (10 * x + y)
                   | _ \<Rightarrow> None)
      | _ \<Rightarrow> None)"

definition clock_ms :: "string \<Rightarrow> int option" where
  "clock_ms s =
     (if length s = 8 \<and> s ! 2 = CHR '':'' \<and> s ! 5 = CHR '':''
      then (case (two_digits (take 2 s), two_digits (take 2 (drop 3 s)), two_digits (drop 6 s)) of
              (Some h, Some m, Some sec) \<Rightarrow>
                if h < 24 \<and> m < 60 \<and> sec < 60
                then Some (int ((h * 60 + m) * 60 + sec) * 1000) else None
            | _ \<Rightarrow> None)
      else None)"

definition jan_day :: "string \<Rightarrow> nat option" where
  "jan_day s =
     (if length s = 10 \<and> take 8 s = ''2024-01-''
      then (case two_digits (drop 8 s) of
              Some n \<Rightarrow> if 1 \<le> n \<and> n \<le> 31 then Some (n - 1) else None
            | None \<Rightarrow> None)
      else None)"

definition jan_instant :: "string \<Rightarrow> instant option" where
  "jan_instant s =
     (case jan_day (take 10 s) of
        None \<Rightarrow> None
      | Some n \<Rightarrow>
          if length s = 10 then Some (int n * 86400000)
          else if s ! 10 = CHR ''T''
          then map_option (\<lambda>c. int n * 86400000 + c) (clock_ms (drop 11 s))
          else None)"

fun starts_with :: "string \<Rightarrow> string \<Rightarrow> bool" where
  "starts_with [] s = True"
| "starts_with (p # ps) [] = False"
| "starts_with (p # ps) (c # cs) = (p = c \<and> starts_with ps cs)"

fun contains :: "string \<Rightarrow> string \<Rightarrow> bool" where
  "contains p [] = (p = [])"
| "contains p (c # cs) = (starts_with p (c # cs) \<or> contains p cs)"

definition january_2024 :: env where
  "january_2024 =
     \<lparr>js_Date = jan_instant,
      getDay = (\<lambda>t. nat ((t div 86400000 + 1) mod 7)),
      pg_timestamp = jan_instant,
      pg_date = (\<lambda>s. map_option int (jan_day s)),
      fromZonedTime = (\<lambda>t tz. t),
      ilike = (\<lambda>pattern v. contains (butlast (tl pattern)) v)\<rparr>"

subsection \<open>A store for the concrete runs\<close>

text \<open>
  Two tenants with the working hours that the schema gives by default (Monday to
  Friday 09:00 to 17:00, the weekend disabled): \<open>salon\<close> with slots of 30 minutes and
  \<open>studio\<close> with slots of 60. The salon has one customer, one confirmed appointment on
  Monday 2024-01-08 at 09:40 and a blackout on 2024-01-15.
\<close>

definition week_hours :: "(string \<times> day_hours) list" where
  "week_hours =
     [(''monday'', \<lparr>dh_enabled = True, dh_start = (9, 0), dh_end = (17, 0)\<rparr>),
      (''tuesday'', \<lparr>dh_enabled = True, dh_start = (9, 0), dh_end = (17, 0)\<rparr>),
      (''wednesday'', \<lparr>dh_enabled = True, dh_start = (9, 0), dh_end = (17, 0)\<rparr>),
      (''thursday'', \<lparr>dh_enabled = True, dh_start = (9, 0), dh_end = (17, 0)\<rparr>),
      (''friday'', \<lparr>dh_enabled = True, dh_start = (9, 0), dh_end = (17, 0)\<rparr>),
      (''saturday'', \<lparr>dh_enabled = False, dh_start = (10, 0), dh_end = (14, 0)\<rparr>),
      (''sunday'', \<lparr>dh_enabled = False, dh_start = (10, 0), dh_end = (14, 0)\<rparr>)]"

definition hours_9_17 :: day_hours where
  "hours_9_17 = \<lparr>dh_enabled = True, dh_start = (9, 0), dh_end = (17, 0)\<rparr>"

definition salon :: business where
  "salon = \<lparr>b_id = 7, working_hours = Some week_hours, slot_duration_minutes = Some 30,
            buffer_minutes = Some 10, timezone = Some ''America/New_York''\<rparr>"

definition studio :: business where
  "studio = \<lparr>b_id = 8, working_hours = Some week_hours, slot_duration_minutes = Some 60,
             buffer_minutes = Some 10, timezone = Some ''America/New_York''\<rparr>"

definition alice :: customer where
  "alice = \<lparr>c_id = 10, c_business_id = 7, c_phone = ''+15550100'', c_name = Some ''Alice''\<rparr>"

definition booked_0940 :: appointment where
  "booked_0940 =
     \<lparr>a_id = 20, a_business_id = 7, a_customer_id = Some 10, a_service_id = None,
      a_call_id = None, a_customer_name = Some ''Alice'', a_customer_phone = ''+15550100'',
      scheduled_at = 639600000, duration_minutes = 30, status = ''confirmed'', a_notes = None\<rparr>"

definition haircut :: service where
  "haircut = \<lparr>s_id = 30, s_business_id = 8, s_name = ''Haircut''\<rparr>"

definition no_args :: tool_args where
  "no_args = \<lparr>arg_customer_name = None, arg_customer_phone = None, arg_date = None,
              arg_time = None, arg_service = None, arg_notes = None, arg_callId = None,
              arg_appointmentId = None\<rparr>"

definition bob_0940 :: tool_args where
  "bob_0940 = no_args\<lparr>arg_customer_name := Some ''Bob'', arg_customer_phone := Some ''+15550111'',
                       arg_date := Some ''2024-01-08'', arg_time := Some ''09:40''\<rparr>"

definition alicia_1020 :: tool_args where
  "alicia_1020 = no_args\<lparr>arg_customer_name := Some ''Alicia'', arg_customer_phone := Some ''+15550100'',
                          arg_date := Some ''2024-01-08'', arg_time := Some ''10:20''\<rparr>"

definition bob_haircut :: tool_args where
  "bob_haircut = no_args\<lparr>arg_customer_name := Some ''Bob'', arg_customer_phone := Some ''+15550111'',
                          arg_date := Some ''2024-01-08'', arg_time := Some ''09:00'',
                          arg_service := Some ''Haircut''\<rparr>"

definition start_msg :: stream_msg where
  "start_msg =
     \<lparr>event = ''start'',
      msg_start = Some \<lparr>st_streamSid = Some ''MZ1'', st_callSid = Some ''CA1'', st_businessId = None\<rparr>,
      msg_media = None, msg_stream_sid = None\<rparr>"

definition stop_msg :: stream_msg where
  "stop_msg = \<lparr>event = ''stop'', msg_start = None, msg_media = None, msg_stream_sid = None\<rparr>"

definition media_msg :: stream_msg where
  "media_msg =
     \<lparr>event = ''media'', msg_start = None,
      msg_media = Some \<lparr>payload = Some ''AAAA'', chunk = Some ''AAAA''\<rparr>, msg_stream_sid = None\<rparr>"

definition salon_db :: db where
  "salon_db =
     \<lparr>businesses = [salon, studio], appointments = [booked_0940], customers = [alice],
      services = [haircut], blackout_dates = [(7, 14)], calls = [], calls_log = [],
      next_id = 100\<rparr>"

section \<open>Properties\<close>

lemma obj_fields [simp]:
  "r_error obj = None" "r_success obj = None" "r_available obj = None" "r_date obj = None"
  "r_slots obj = None" "r_message obj = None" "r_appointment_id obj = None"
  "r_appointment obj = None" "r_cancelled_count obj = None" "r_cancelled obj = None"
  by (simp_all add: obj_def)

lemma bookAppointment_object:
  "bookAppointment env d bid cid (Some args) =
     (let (d1, customer) = find_or_create_customer d bid args;
          scheduledAt = tmpl (arg_date args) @ ''T'' @ tmpl (arg_time args) @ '':00'';
          (d2, appointment) =
            insert_appointment d1 bid (map_option c_id customer) None cid
              (arg_customer_name args) (arg_customer_phone args) (pg_timestamp env scheduledAt)
              None (or_null (arg_notes args))
      in case appointment of
           None \<Rightarrow> (d2, obj\<lparr>r_success := Some False, r_error := Some ''Failed to book appointment''\<rparr>)
         | Some a \<Rightarrow>
             ((case cid of
                 None \<Rightarrow> d2
               | Some c \<Rightarrow> update_call d2 c (Outcome ''booked'' ''book_appointment'')),
              obj\<lparr>r_success := Some True,
                  r_message := Some (confirmation_message args),
                  r_appointment_id := Some (a_id a)\<rparr>))"
  by (simp add: bookAppointment_def bookAppointment_try_def)

lemma bookAppointment_null:
  "bookAppointment env d bid cid None =
     (d, obj\<lparr>r_success := Some False, r_error := Some ''Failed to book appointment''\<rparr>)"
  by (simp add: bookAppointment_def bookAppointment_try_def)

lemma cancelAppointment_object:
  "cancelAppointment env d bid (Some args) =
     (case cancel_window env (arg_date args) of
        None \<Rightarrow>
          (d, obj\<lparr>r_success := Some False, r_message := Some ''No appointment found to cancel''\<rparr>)
      | Some w \<Rightarrow>
          let (d', data) = cancel_rows d (cancel_hit bid (arg_customer_phone args) w)
          in if length data = 0
             then (d', obj\<lparr>r_success := Some False,
                           r_message := Some ''No appointment found to cancel''\<rparr>)
             else (d', obj\<lparr>r_success := Some True,
                           r_message := Some ''Appointment cancelled successfully'',
                           r_cancelled_count := Some (length data)\<rparr>))"
  by (simp add: cancelAppointment_def cancelAppointment_try_def)

lemma cancelAppointment_null:
  "cancelAppointment env d bid None =
     (d, obj\<lparr>r_success := Some False, r_error := Some ''Failed to cancel appointment''\<rparr>)"
  by (simp add: cancelAppointment_def cancelAppointment_try_def)

subsection \<open>Slot generation\<close>

lemma slot_loop_step:
  "currentTime + or_default (slot_duration_minutes biz) 30 \<le> endTime \<Longrightarrow>
   slot_loop env date biz appts endTime currentTime slots =
   slot_loop env date biz appts endTime
     (currentTime + or_default (slot_duration_minutes biz) 30 + or_default (buffer_minutes biz) 10)
     (if hasConflict env date (or_default (slot_duration_minutes biz) 30) currentTime appts
      then slots else slots @ [slotTimeStr currentTime])"
  by (subst slot_loop.simps) (simp add: Let_def)

lemma slot_loop_stop:
  "\<not> currentTime + or_default (slot_duration_minutes biz) 30 \<le> endTime \<Longrightarrow>
   slot_loop env date biz appts endTime currentTime slots = slots"
  by (subst slot_loop.simps) (simp add: Let_def)

lemma slotTimeStr_values:
  "map slotTimeStr [540, 580, 620, 660, 700, 740, 780, 820, 860, 900, 940, 980] =
   [''09:00'', ''09:40'', ''10:20'', ''11:00'', ''11:40'', ''12:20'', ''13:00'', ''13:40'',
    ''14:20'', ''15:00'', ''15:40'', ''16:20'']"
  by code_simp

lemmas calendar_defs =
  january_2024_def jan_instant_def jan_day_def clock_ms_def two_digits_def digit_val_def

lemmas store_defs =
  salon_db_def salon_def studio_def week_hours_def alice_def booked_0940_def haircut_def

lemma salon_monday_slots:
  "generate_slots january_2024 (Some ''2024-01-08'') salon
     \<lparr>dh_enabled = True, dh_start = (9, 0), dh_end = (17, 0)\<rparr> (Some [booked_0940]) =
   [''09:00'', ''10:20'', ''11:00'', ''11:40'', ''12:20'', ''13:00'', ''13:40'', ''14:20'',
    ''15:00'', ''15:40'', ''16:20'']"
  using slotTimeStr_values
  by (simp add: generate_slots_def slot_loop_step slot_loop_stop or_default_def hasConflict_def
      aptEnd_def tmpl_def calendar_defs store_defs)

lemma salon_monday_availability:
  "r_slots (booking_checkAvailability january_2024 salon_db 7 (Some ''2024-01-08'')) =
   Some [''09:00'', ''10:20'', ''11:00'', ''11:40'', ''12:20'', ''13:00'', ''13:40'',
         ''14:20'', ''15:00'', ''15:40'', ''16:20'']"
proof -
  have biz: "select_business salon_db 7 = Some salon"
    by (simp add: select_business_def single_row_def store_defs)
  have blackout: "select_blackout january_2024 salon_db 7 (Some ''2024-01-08'') = None"
    by (simp add: select_blackout_def single_row_def tmpl_def calendar_defs store_defs)
  have day: "booking_dayOfWeek january_2024 (Some ''2024-01-08'') = Some ''monday''"
    by (simp add: booking_dayOfWeek_def new_Date_def days_def calendar_defs)
  have hours: "lookup_hours salon ''monday'' =
      Some \<lparr>dh_enabled = True, dh_start = (9, 0), dh_end = (17, 0)\<rparr>"
    by (simp add: lookup_hours_def store_defs)
  have appts: "select_appointments january_2024 salon_db 7 (Some ''2024-01-08'') = Some [booked_0940]"
    by (simp add: select_appointments_def day_window_def tmpl_def calendar_defs store_defs)
  show ?thesis
    by (simp add: booking_checkAvailability_def biz blackout day hours appts salon_monday_slots
        tmpl_def Let_def obj_def)
qed





lemma hasConflict_no_appointments:
  "hasConflict env date slotDuration currentTime (Some []) = False"
  by (simp add: hasConflict_def split: option.splits)

lemma slot_loop_free_day:
  "slot_loop env date (biz\<lparr>slot_duration_minutes := Some 30, buffer_minutes := Some 10\<rparr>)
     (Some []) 1020 540 [] =
   map slotTimeStr [540, 580, 620, 660, 700, 740, 780, 820, 860, 900, 940, 980]"
  by (simp add: slot_loop_step slot_loop_stop or_default_def hasConflict_no_appointments)

lemma generate_slots_free_day:
  "generate_slots env date (biz\<lparr>slot_duration_minutes := Some 30, buffer_minutes := Some 10\<rparr>)
     (dh\<lparr>dh_start := (9, 0), dh_end := (17, 0)\<rparr>) (Some []) =
   [''09:00'', ''09:40'', ''10:20'', ''11:00'', ''11:40'', ''12:20'', ''13:00'', ''13:40'',
    ''14:20'', ''15:00'', ''15:40'', ''16:20'']"
  using slot_loop_free_day [of env date biz] slotTimeStr_values
  by (simp add: generate_slots_def)

text \<open>
  C3 (as stated): for the window 09:00 to 17:00, slots of 30 minutes, a buffer of 10 and
  no appointments, the last slot generated is 16:30. The walk in steps of 40 minutes
  from 09:00 never meets 16:30: with these settings (the salon's, on a day without
  appointments) the last slot is another one.
\<close>

theorem C3_last_slot_counterexample:
  "last (generate_slots january_2024 (Some ''2024-01-08'') salon hours_9_17 (Some [])) \<noteq> ''16:30''"
proof -
  have "salon = salon\<lparr>slot_duration_minutes := Some 30, buffer_minutes := Some 10\<rparr>"
    by (simp add: salon_def)
  moreover have "hours_9_17 = hours_9_17\<lparr>dh_start := (9, 0), dh_end := (17, 0)\<rparr>"
    by (simp add: hours_9_17_def)
  ultimately have "generate_slots january_2024 (Some ''2024-01-08'') salon hours_9_17 (Some []) =
      [''09:00'', ''09:40'', ''10:20'', ''11:00'', ''11:40'', ''12:20'', ''13:00'', ''13:40'',
       ''14:20'', ''15:00'', ''15:40'', ''16:20'']"
    using generate_slots_free_day [of january_2024 "Some ''2024-01-08''" salon hours_9_17]
    by simp
  then show ?thesis
    by simp
qed

text \<open>
  C3 (amended): for the window 09:00 to 17:00, slots of 30 minutes, a buffer of 10 and
  no appointments, slot generation gives, whatever the date, the calendar and the other
  settings of the tenant, the twelve slots 09:00, 09:40, 10:20, ... in order; the last
  one is 16:20, and there is no slot at 16:30 or at 16:40.
\<close>

theorem C3_slots_from_nine_to_five:
  "(let slots = generate_slots env date
                  (biz\<lparr>slot_duration_minutes := Some 30, buffer_minutes := Some 10\<rparr>)
                  (dh\<lparr>dh_start := (9, 0), dh_end := (17, 0)\<rparr>) (Some [])
    in slots = [''09:00'', ''09:40'', ''10:20'', ''11:00'', ''11:40'', ''12:20'', ''13:00'',
                ''13:40'', ''14:20'', ''15:00'', ''15:40'', ''16:20''] \<and>
       last slots = ''16:20'' \<and> ''16:30'' \<notin> set slots \<and> ''16:40'' \<notin> set slots)"
  by (simp add: generate_slots_free_day)






subsection \<open>Cancellation\<close>

lemma cancel_rows_store:
  "fst (cancel_rows d hit) = d\<lparr>appointments := appointments (fst (cancel_rows d hit))\<rparr>"
  by (simp add: cancel_rows_def)

lemma cancel_rows_table:
  "length (appointments (fst (cancel_rows d hit))) = length (appointments d) \<and>
   (\<forall>i < length (appointments d).
      appointments (fst (cancel_rows d hit)) ! i =
        (if hit (appointments d ! i) then (appointments d ! i)\<lparr>status := ''cancelled''\<rparr>
         else appointments d ! i))"
  by (simp add: cancel_rows_def)

lemma cancel_rows_none:
  "filter hit (appointments d) = [] \<Longrightarrow> fst (cancel_rows d hit) = d"
proof -
  assume "filter hit (appointments d) = []"
  then have "\<forall>a \<in> set (appointments d). \<not> hit a"
    by (simp add: filter_empty_conv)
  then have "map (\<lambda>a. if hit a then a\<lparr>status := ''cancelled''\<rparr> else a) (appointments d) = appointments d"
    by (induction "appointments d") (auto simp: map_idI)
  then show ?thesis
    by (simp add: cancel_rows_def)
qed

lemma cancel_rows_data:
  "snd (cancel_rows d hit) = map (\<lambda>a. a\<lparr>status := ''cancelled''\<rparr>) (filter hit (appointments d))"
  by (simp add: cancel_rows_def)

text \<open>
  C6: let the matched rows be the tenant's confirmed appointments with the given phone,
  within the day's window when a date is given (none when the store cannot read the date).
  With no matched row \<^verbatim>\<open>cancelAppointment\<close> of the stream handlers returns
  \<^verbatim>\<open>success: false\<close> with the message that nothing was found and leaves the store as it
  is; a successful result never counts zero. With matched rows it returns
  \<^verbatim>\<open>success: true\<close> with their number, every matched row has the status cancelled
  afterwards and every other row is as before. The booking service, called with a phone
  and no appointment id, does the same, naming the failure under \<^verbatim>\<open>error\<close> and
  reporting the cancelled rows and their number in the message.
\<close>

theorem C6_cancel_reports_nothing_found:
  assumes "matched = (case cancel_window env (arg_date args) of
                        None \<Rightarrow> []
                      | Some w \<Rightarrow> filter (cancel_hit bid (arg_customer_phone args) w) (appointments d))"
    and "hit = (\<lambda>a. a \<in> set matched)"
  shows "(matched = [] \<longrightarrow>
            cancelAppointment env d bid (Some args) =
              (d, obj\<lparr>r_success := Some False, r_message := Some ''No appointment found to cancel''\<rparr>)) \<and>
         (matched \<noteq> [] \<longrightarrow>
            (let (d', r) = cancelAppointment env d bid (Some args)
             in r = obj\<lparr>r_success := Some True,
                       r_message := Some ''Appointment cancelled successfully'',
                       r_cancelled_count := Some (length matched)\<rparr> \<and>
                d' = d\<lparr>appointments := appointments d'\<rparr> \<and>
                length (appointments d') = length (appointments d) \<and>
                (\<forall>i < length (appointments d).
                   appointments d' ! i =
                     (if hit (appointments d ! i)
                      then (appointments d ! i)\<lparr>status := ''cancelled''\<rparr>
                      else appointments d ! i)))) \<and>
         (r_success (snd (cancelAppointment env d bid (Some args))) = Some True \<longrightarrow>
            (\<exists>n > 0. r_cancelled_count (snd (cancelAppointment env d bid (Some args))) = Some n)) \<and>
         (arg_appointmentId args = None \<and> truthy (arg_customer_phone args) \<longrightarrow>
            (matched = [] \<longrightarrow>
               fst (booking_cancelAppointment env d bid args) = d \<and>
               r_success (snd (booking_cancelAppointment env d bid args)) = Some False \<and>
               r_error (snd (booking_cancelAppointment env d bid args)) =
                 Some (if cancel_window env (arg_date args) = None
                       then ''Failed to cancel appointment''
                       else ''No appointment found to cancel'')) \<and>
            (matched \<noteq> [] \<longrightarrow>
               booking_cancelAppointment env d bid args =
                 (fst (cancelAppointment env d bid (Some args)),
                  obj\<lparr>r_success := Some True,
                      r_message := Some (''Cancelled '' @ String_nat (length matched) @ '' appointment(s)''),
                      r_cancelled := Some (map (\<lambda>a. a\<lparr>status := ''cancelled''\<rparr>) matched)\<rparr>)))"
proof (cases "cancel_window env (arg_date args)")
  case None
  then have m: "matched = []"
    using assms(1) by simp
  show ?thesis
    using None m
    by (simp add: cancelAppointment_object booking_cancelAppointment_def obj_def)
next
  case (Some w)
  let ?hit = "cancel_hit bid (arg_customer_phone args) w"
  have m: "matched = filter ?hit (appointments d)"
    using assms(1) Some by simp
  have hit: "\<And>i. i < length (appointments d) \<Longrightarrow> hit (appointments d ! i) = ?hit (appointments d ! i)"
    using assms(2) m by auto
  show ?thesis
  proof (cases "matched = []")
    case True
    with m have "fst (cancel_rows d ?hit) = d" "snd (cancel_rows d ?hit) = []"
      by (simp_all add: cancel_rows_none cancel_rows_data)
    then have "cancel_rows d ?hit = (d, [])"
      by (metis prod.collapse)
    with True Some show ?thesis
      by (simp add: cancelAppointment_object booking_cancelAppointment_def obj_def)
  next
    case False
    obtain d' data where rows: "cancel_rows d ?hit = (d', data)"
      by (cases "cancel_rows d ?hit")
    have data: "data = map (\<lambda>a. a\<lparr>status := ''cancelled''\<rparr>) matched"
      using rows cancel_rows_data [of d ?hit] m by simp
    have len: "length data = length matched" "data \<noteq> []"
      using data False by simp_all
    have d': "d' = d\<lparr>appointments := appointments d'\<rparr>"
      using rows cancel_rows_store [of d ?hit] by simp
    have table: "length (appointments d') = length (appointments d) \<and>
      (\<forall>i < length (appointments d).
         appointments d' ! i =
           (if hit (appointments d ! i) then (appointments d ! i)\<lparr>status := ''cancelled''\<rparr>
            else appointments d ! i))"
      using rows cancel_rows_table [of d ?hit] hit by simp
    have relay: "cancelAppointment env d bid (Some args) =
        (d', obj\<lparr>r_success := Some True, r_message := Some ''Appointment cancelled successfully'',
                 r_cancelled_count := Some (length matched)\<rparr>)"
      using Some rows len by (simp add: cancelAppointment_object)
    have service: "arg_appointmentId args = None \<Longrightarrow> truthy (arg_customer_phone args) \<Longrightarrow>
        booking_cancelAppointment env d bid args =
          (d', obj\<lparr>r_success := Some True,
                   r_message := Some (''Cancelled '' @ String_nat (length matched) @ '' appointment(s)''),
                   r_cancelled := Some (map (\<lambda>a. a\<lparr>status := ''cancelled''\<rparr>) matched)\<rparr>)"
      using Some rows len data by (simp add: booking_cancelAppointment_def)
    have pos: "0 < length matched"
      using False by simp
    show ?thesis
      using False relay service d' table pos
      by (simp add: obj_def)
  qed
qed

theorem C6_cancel_reports_nothing_found_witness:
  "cancelAppointment january_2024 salon_db 7
     (Some (no_args\<lparr>arg_customer_phone := Some ''+15550199'', arg_date := Some ''2024-01-08''\<rparr>)) =
     (salon_db, obj\<lparr>r_success := Some False, r_message := Some ''No appointment found to cancel''\<rparr>) \<and>
   snd (cancelAppointment january_2024 salon_db 7
     (Some (no_args\<lparr>arg_customer_phone := Some ''+15550100'', arg_date := Some ''2024-01-08''\<rparr>))) =
     obj\<lparr>r_success := Some True, r_message := Some ''Appointment cancelled successfully'',
         r_cancelled_count := Some 1\<rparr> \<and>
   appointments (fst (cancelAppointment january_2024 salon_db 7
     (Some (no_args\<lparr>arg_customer_phone := Some ''+15550100'', arg_date := Some ''2024-01-08''\<rparr>)))) =
     [booked_0940\<lparr>status := ''cancelled''\<rparr>]"
proof -
  let ?nobody = "no_args\<lparr>arg_customer_phone := Some ''+15550199'', arg_date := Some ''2024-01-08''\<rparr>"
  let ?alice = "no_args\<lparr>arg_customer_phone := Some ''+15550100'', arg_date := Some ''2024-01-08''\<rparr>"
  have window: "cancel_window january_2024 (Some ''2024-01-08'') = Some (Some (604800000, 691199000))"
    by (simp add: cancel_window_def truthy_def day_window_def tmpl_def calendar_defs)
  have none: "[] = (case cancel_window january_2024 (arg_date ?nobody) of
                      None \<Rightarrow> []
                    | Some w \<Rightarrow> filter (cancel_hit 7 (arg_customer_phone ?nobody) w) (appointments salon_db))"
    by (simp add: window no_args_def cancel_hit_def tmpl_def store_defs)
  have one: "[booked_0940] = (case cancel_window january_2024 (arg_date ?alice) of
                      None \<Rightarrow> []
                    | Some w \<Rightarrow> filter (cancel_hit 7 (arg_customer_phone ?alice) w) (appointments salon_db))"
    by (simp add: window no_args_def cancel_hit_def in_window_def tmpl_def store_defs)
  from C6_cancel_reports_nothing_found [OF none refl]
  have a: "cancelAppointment january_2024 salon_db 7 (Some ?nobody) =
     (salon_db, obj\<lparr>r_success := Some False, r_message := Some ''No appointment found to cancel''\<rparr>)"
    by simp
  from C6_cancel_reports_nothing_found [OF one refl]
  have b: "(let (d', r) = cancelAppointment january_2024 salon_db 7 (Some ?alice)
           in r = obj\<lparr>r_success := Some True,
                       r_message := Some ''Appointment cancelled successfully'',
                       r_cancelled_count := Some (length [booked_0940])\<rparr> \<and>
              d' = salon_db\<lparr>appointments := appointments d'\<rparr> \<and>
              length (appointments d') = length (appointments salon_db) \<and>
              (\<forall>i < length (appointments salon_db).
                 appointments d' ! i =
                   (if appointments salon_db ! i \<in> set [booked_0940]
                    then (appointments salon_db ! i)\<lparr>status := ''cancelled''\<rparr>
                    else appointments salon_db ! i)))"
    by simp
  obtain d' r where dr: "cancelAppointment january_2024 salon_db 7 (Some ?alice) = (d', r)"
    by (cases "cancelAppointment january_2024 salon_db 7 (Some ?alice)")
  have tab: "appointments salon_db = [booked_0940]"
    by (simp add: salon_db_def)
  from b dr tab have r: "r = obj\<lparr>r_success := Some True,
        r_message := Some ''Appointment cancelled successfully'', r_cancelled_count := Some 1\<rparr>"
    and len: "length (appointments d') = 1"
    and row: "appointments d' ! 0 = booked_0940\<lparr>status := ''cancelled''\<rparr>"
    by simp_all
  from len row have "appointments d' = [booked_0940\<lparr>status := ''cancelled''\<rparr>]"
    by (cases "appointments d'") simp_all
  with a r dr show ?thesis
    by simp
qed

subsection \<open>Media frames\<close>

text \<open>
  C9: a media frame of the provider that arrives while the model connection is absent
  or not open leaves the whole session as it is, in both handlers: nothing is sent to the
  model and nothing is kept for later. Whenever a media frame adds to what was sent to the
  model, the connection was open; and on an open connection the Twilio handler sends the
  frame's payload as one append-audio command.
\<close>

theorem C9_media_dropped_unless_open:
  assumes "event data = ''media''"
  shows "(openaiWs s \<noteq> Some OPEN \<longrightarrow>
            twilio_on_message now s data = s \<and> exotel_on_message now s data = s) \<and>
         (openai_out (twilio_on_message now s data) \<noteq> openai_out s \<longrightarrow> openaiWs s = Some OPEN) \<and>
         (openai_out (exotel_on_message now s data) \<noteq> openai_out s \<longrightarrow> openaiWs s = Some OPEN) \<and>
         (openaiWs s = Some OPEN \<longrightarrow>
            (\<forall>m. msg_media data = Some m \<longrightarrow>
               twilio_on_message now s data =
                 s\<lparr>openai_out := openai_out s @ [InputAudioBufferAppend (payload m)]\<rparr> \<and>
               (truthy (chunk m) \<longrightarrow>
                  exotel_on_message now s data =
                    s\<lparr>openai_out := openai_out s @ [InputAudioBufferAppend (chunk m)]\<rparr>)))"
  using assms by (auto simp: twilio_on_message_def exotel_on_message_def)

theorem C9_media_dropped_unless_open_witness:
  "twilio_on_message 5 (twilio_on_message 0 (new_session salon_db (Some 7) True) start_msg) media_msg =
     twilio_on_message 0 (new_session salon_db (Some 7) True) start_msg \<and>
   exotel_on_message 5 (twilio_on_message 0 (new_session salon_db (Some 7) True) start_msg) media_msg =
     twilio_on_message 0 (new_session salon_db (Some 7) True) start_msg \<and>
   openai_out (twilio_on_message 5
       (openai_on_open ''g711_ulaw'' (twilio_on_message 0 (new_session salon_db (Some 7) True) start_msg))
       media_msg) =
     [SessionUpdate ''g711_ulaw'', ResponseCreate, InputAudioBufferAppend (Some ''AAAA'')]"
proof -
  let ?s = "twilio_on_message 0 (new_session salon_db (Some 7) True) start_msg"
  have ev: "event media_msg = ''media''"
    by (simp add: media_msg_def)
  have connecting: "openaiWs ?s = Some CONNECTING"
    by (simp add: twilio_on_message_def start_msg_def)
  have out: "openai_out ?s = []"
    by (simp add: twilio_on_message_def start_msg_def create_call_def fetch_business_def
        new_session_def split: prod.splits option.splits)
  have opened: "openaiWs (openai_on_open ''g711_ulaw'' ?s) = Some OPEN"
    "openai_out (openai_on_open ''g711_ulaw'' ?s) = [SessionUpdate ''g711_ulaw'', ResponseCreate]"
    using out by (simp_all add: openai_on_open_def)
  have media: "msg_media media_msg = Some \<lparr>payload = Some ''AAAA'', chunk = Some ''AAAA''\<rparr>"
    by (simp add: media_msg_def)
  from C9_media_dropped_unless_open [OF ev, of ?s 5] connecting
  have dropped: "twilio_on_message 5 ?s media_msg = ?s \<and> exotel_on_message 5 ?s media_msg = ?s"
    by simp
  from C9_media_dropped_unless_open [OF ev, of "openai_on_open ''g711_ulaw'' ?s" 5] opened media
  have "twilio_on_message 5 (openai_on_open ''g711_ulaw'' ?s) media_msg =
      (openai_on_open ''g711_ulaw'' ?s)\<lparr>openai_out := openai_out (openai_on_open ''g711_ulaw'' ?s) @
         [InputAudioBufferAppend (Some ''AAAA'')]\<rparr>"
    by simp
  then have "openai_out (twilio_on_message 5 (openai_on_open ''g711_ulaw'' ?s) media_msg) =
      [SessionUpdate ''g711_ulaw'', ResponseCreate, InputAudioBufferAppend (Some ''AAAA'')]"
    using opened by simp
  with dropped show ?thesis
    by simp
qed

subsection \<open>Finalization\<close>

lemma final_update_log:
  "calls_log (store (final_update now s)) =
     calls_log (store s) @
       (case callId s of None \<Rightarrow> [] | Some c \<Rightarrow> [(c, Finalize now (transcript_str (transcript s)))])"
  by (simp add: final_update_def update_call_def split: option.splits)

lemma final_update_keeps:
  "callId (final_update now s) = callId s" "transcript (final_update now s) = transcript s"
  "openaiWs (final_update now s) = openaiWs s"
  by (simp_all add: final_update_def split: option.splits)

lemma close_openai_keeps:
  "callId (close_openai s) = callId s" "transcript (close_openai s) = transcript s"
  "store (close_openai s) = store s"
  by (simp_all add: close_openai_def split: option.splits)

lemma stop_then_close_log:
  "calls_log (store (final_update t2 (close_openai (close_openai (final_update t1 s))))) =
     calls_log (store s) @
       (case callId s of
          None \<Rightarrow> []
        | Some c \<Rightarrow> [(c, Finalize t1 (transcript_str (transcript s))),
                     (c, Finalize t2 (transcript_str (transcript s)))])"
  by (simp add: final_update_log final_update_keeps close_openai_keeps split: option.splits)

text \<open>
  C2 (as stated): finalization runs at most once per call when both the stop event and
  the connection close occur. In a call of the salon the assistant speaks once, the
  provider sends stop at time 1000 and its connection closes at time 2000: the call
  record is written twice.
\<close>

theorem C2_two_finalizations_counterexample:
  "calls_log (store
     (twilio_on_close 2000
        (twilio_on_message 1000
           (openai_on_transcript ''assistant'' (Some ''Hello'')
              (twilio_on_message 0 (new_session salon_db (Some 7) True) start_msg))
           stop_msg))) =
   [(100, Finalize 1000 ''assistant: Hello''), (100, Finalize 2000 ''assistant: Hello'')]"
proof -
  let ?s = "openai_on_transcript ''assistant'' (Some ''Hello'')
              (twilio_on_message 0 (new_session salon_db (Some 7) True) start_msg)"
  have exists: "business_exists salon_db 7"
    by (simp add: business_exists_def store_defs)
  have s: "callId ?s = Some 100" "transcript ?s = [(''assistant'', Some ''Hello'')]"
    "calls_log (store ?s) = []"
    using exists
    by (simp_all add: openai_on_transcript_def twilio_on_message_def start_msg_def
        create_call_def fetch_business_def insert_call_def new_session_def salon_db_def)
  have "twilio_on_close 2000 (twilio_on_message 1000 ?s stop_msg) =
      final_update 2000 (close_openai (close_openai (final_update 1000 ?s)))"
    by (simp add: twilio_on_close_def twilio_on_message_def stop_msg_def)
  then show ?thesis
    using s by (simp add: stop_then_close_log transcript_str_def tmpl_def)
qed

text \<open>
  C2 (amended): each way of ending a call writes the end timestamp and the accumulated
  transcript to the call record when it occurs, provided the session holds the id of a
  call record: the connection close alone writes once, and the stop event followed by the
  connection close writes twice, the second write with the same transcript and the time of
  the close. No flag marks the session as finalized. A session without a call record id
  writes nothing. This holds in both handlers.
\<close>

theorem C2_each_closure_path_writes:
  assumes "event data = ''stop''"
  shows "(\<forall>c. callId s = Some c \<longrightarrow>
            calls_log (store (twilio_on_close t2 s)) =
              calls_log (store s) @ [(c, Finalize t2 (transcript_str (transcript s)))] \<and>
            calls_log (store (twilio_on_close t2 (twilio_on_message t1 s data))) =
              calls_log (store s) @ [(c, Finalize t1 (transcript_str (transcript s))),
                                     (c, Finalize t2 (transcript_str (transcript s)))] \<and>
            calls_log (store (exotel_on_close t2 (exotel_on_message t1 s data))) =
              calls_log (store s) @ [(c, Finalize t1 (transcript_str (transcript s))),
                                     (c, Finalize t2 (transcript_str (transcript s)))]) \<and>
         (callId s = None \<longrightarrow>
            calls_log (store (twilio_on_close t2 (twilio_on_message t1 s data))) = calls_log (store s) \<and>
            calls_log (store (exotel_on_close t2 (exotel_on_message t1 s data))) = calls_log (store s))"
proof -
  have tw: "twilio_on_close t2 (twilio_on_message t1 s data) =
      final_update t2 (close_openai (close_openai (final_update t1 s)))"
    using assms by (simp add: twilio_on_close_def twilio_on_message_def)
  have ex: "exotel_on_close t2 (exotel_on_message t1 s data) =
      final_update t2 (close_openai (close_openai (final_update t1 s)))"
    using assms by (simp add: exotel_on_close_def exotel_on_message_def)
  have one: "calls_log (store (twilio_on_close t2 s)) =
      calls_log (store s) @
        (case callId s of None \<Rightarrow> [] | Some c \<Rightarrow> [(c, Finalize t2 (transcript_str (transcript s)))])"
    by (simp add: twilio_on_close_def final_update_log close_openai_keeps split: option.splits)
  show ?thesis
    by (simp add: tw ex one stop_then_close_log)
qed

theorem C2_each_closure_path_writes_witness:
  "callId (twilio_on_message 0 (new_session salon_db (Some 7) True) start_msg) = Some 100 \<and>
   calls_log (store (exotel_on_close 2000
      (exotel_on_message 1000 (twilio_on_message 0 (new_session salon_db (Some 7) True) start_msg)
         stop_msg))) =
     [(100, Finalize 1000 []), (100, Finalize 2000 [])] \<and>
   calls_log (store (twilio_on_close 2000
      (twilio_on_message 1000 (new_session salon_db (Some 7) True) stop_msg))) = []"
proof -
  let ?s = "twilio_on_message 0 (new_session salon_db (Some 7) True) start_msg"
  have ev: "event stop_msg = ''stop''"
    by (simp add: stop_msg_def)
  have exists: "business_exists salon_db 7"
    by (simp add: business_exists_def store_defs)
  have s: "callId ?s = Some 100" "transcript ?s = []" "calls_log (store ?s) = []"
    using exists
    by (simp_all add: twilio_on_message_def start_msg_def
        create_call_def fetch_business_def insert_call_def new_session_def salon_db_def)
  have n: "callId (new_session salon_db (Some 7) True) = None"
    "calls_log (store (new_session salon_db (Some 7) True)) = []"
    by (simp_all add: new_session_def salon_db_def)
  from C2_each_closure_path_writes [OF ev, of ?s 2000 1000] s
  have a: "calls_log (store (exotel_on_close 2000 (exotel_on_message 1000 ?s stop_msg))) =
      [(100, Finalize 1000 []), (100, Finalize 2000 [])]"
    by (simp add: transcript_str_def)
  from C2_each_closure_path_writes [OF ev, of "new_session salon_db (Some 7) True" 2000 1000] n
  have b: "calls_log (store (twilio_on_close 2000
      (twilio_on_message 1000 (new_session salon_db (Some 7) True) stop_msg))) = []"
    by simp
  from a b s(1) show ?thesis
    by simp
qed

subsection \<open>Closed days\<close>

lemma salon_exists: "select_business salon_db 7 = Some salon"
  by (simp add: select_business_def single_row_def store_defs)

lemma studio_exists: "select_business salon_db 8 = Some studio"
  by (simp add: select_business_def single_row_def store_defs)

lemma sunday_is_valid: "new_Date january_2024 (Some ''2024-01-07'') = Some 518400000"
  by (simp add: new_Date_def calendar_defs)

lemma sunday_no_blackout: "select_blackout january_2024 salon_db 7 (Some ''2024-01-07'') = None"
  by (simp add: select_blackout_def single_row_def tmpl_def calendar_defs store_defs)

lemma checkAvailability_try_raises:
  assumes "select_business d bid = Some biz" and "select_blackout env d bid date = None"
    and "new_Date env date = Some t"
  shows "checkAvailability_try env d bid date = Inl RangeError"
  using assms by (simp add: checkAvailability_try_def toLocaleDateString_def Let_def)

lemma checkAvailability_blackout:
  assumes "select_business d bid = Some biz" and "select_blackout env d bid date \<noteq> None"
  shows "checkAvailability env d bid date =
     obj\<lparr>r_available := Some False, r_message := Some ''Sorry, we are closed on this date.'',
         r_slots := Some []\<rparr>"
  using assms by (simp add: checkAvailability_def checkAvailability_try_def)

lemma sunday_raises: "checkAvailability_try january_2024 salon_db 7 (Some ''2024-01-07'') = Inl RangeError"
  by (rule checkAvailability_try_raises [OF salon_exists sunday_no_blackout sunday_is_valid])

lemma sunday_is_sunday: "booking_dayOfWeek january_2024 (Some ''2024-01-07'') = Some ''sunday''"
  by (simp add: booking_dayOfWeek_def new_Date_def days_def calendar_defs)

lemma sunday_hours:
  "lookup_hours salon ''sunday'' = Some \<lparr>dh_enabled = False, dh_start = (10, 0), dh_end = (14, 0)\<rparr>"
  by (simp add: lookup_hours_def store_defs)

lemma blackout_day: "select_blackout january_2024 salon_db 7 (Some ''2024-01-15'') = Some (7, 14)"
  by (simp add: select_blackout_def single_row_def tmpl_def calendar_defs store_defs)

text \<open>
  C4 (as it stands in the code): for Sunday 2024-01-07, a day that the salon's working hours
  disable, \<^verbatim>\<open>checkAvailability\<close> of the stream handlers returns the error value of its
  \<^verbatim>\<open>catch\<close>, because asking for the weekday with the option value \<^verbatim>\<open>'lowercase'\<close> throws;
  the booking service returns the closed result for the same day, and the handlers
  return the closed result for the blackout date 2024-01-15.
\<close>

theorem C4_handlers_fail_on_closed_weekday:
  "checkAvailability january_2024 salon_db 7 (Some ''2024-01-07'') =
     obj\<lparr>r_error := Some ''Failed to check availability''\<rparr> \<and>
   booking_checkAvailability january_2024 salon_db 7 (Some ''2024-01-07'') =
     obj\<lparr>r_available := Some False, r_message := Some ''Sorry, we are closed on sundays.'',
         r_slots := Some []\<rparr> \<and>
   checkAvailability january_2024 salon_db 7 (Some ''2024-01-15'') =
     obj\<lparr>r_available := Some False, r_message := Some ''Sorry, we are closed on this date.'',
         r_slots := Some []\<rparr>"
proof -
  have a: "checkAvailability january_2024 salon_db 7 (Some ''2024-01-07'') =
     obj\<lparr>r_error := Some ''Failed to check availability''\<rparr>"
    by (simp add: checkAvailability_def sunday_raises)
  have b: "booking_checkAvailability january_2024 salon_db 7 (Some ''2024-01-07'') =
     obj\<lparr>r_available := Some False, r_message := Some ''Sorry, we are closed on sundays.'',
         r_slots := Some []\<rparr>"
    by (simp add: booking_checkAvailability_def salon_exists sunday_no_blackout sunday_is_sunday
        sunday_hours tmpl_def)
  have c: "checkAvailability january_2024 salon_db 7 (Some ''2024-01-15'') =
     obj\<lparr>r_available := Some False, r_message := Some ''Sorry, we are closed on this date.'',
         r_slots := Some []\<rparr>"
    by (simp add: checkAvailability_def checkAvailability_try_def salon_exists blackout_day)
  from a b c show ?thesis
    by simp
qed

lemma booking_checkAvailability_closed:
  assumes "select_business d bid = Some biz"
    and "select_blackout env d bid date \<noteq> None \<or>
         lookup_hours biz (tmpl (booking_dayOfWeek env date)) = None \<or>
         (\<exists>h. lookup_hours biz (tmpl (booking_dayOfWeek env date)) = Some h \<and> \<not> dh_enabled h)"
  shows "r_available (booking_checkAvailability env d bid date) = Some False \<and>
         r_slots (booking_checkAvailability env d bid date) = Some [] \<and>
         r_error (booking_checkAvailability env d bid date) = None"
  using assms by (auto simp: booking_checkAvailability_def Let_def)

subsection \<open>Booking\<close>

lemma insert_customer_frame:
  "businesses (fst (insert_customer d b p n)) = businesses d"
  "appointments (fst (insert_customer d b p n)) = appointments d"
  "services (fst (insert_customer d b p n)) = services d"
  by (simp_all add: insert_customer_def Let_def split: option.split)

lemma insert_customer_row:
  "insert_customer d b p n = (d', Some c) \<Longrightarrow>
   customers d' = customers d @ [c] \<and> c_business_id c = b \<and> Some (c_phone c) = p \<and> c_name c = n"
  by (auto simp: insert_customer_def Let_def split: option.splits if_splits)

lemma insert_customer_refused:
  "insert_customer d b p n = (d', None) \<Longrightarrow> d' = d"
  by (auto simp: insert_customer_def Let_def split: option.splits if_splits)

lemma update_customer_name_frame:
  "businesses (update_customer_name d i n) = businesses d"
  "appointments (update_customer_name d i n) = appointments d"
  "services (update_customer_name d i n) = services d"
  "length (customers (update_customer_name d i n)) = length (customers d)"
  by (simp_all add: update_customer_name_def)

lemma find_or_create_customer_frame:
  "businesses (fst (find_or_create_customer d b args)) = businesses d"
  "appointments (fst (find_or_create_customer d b args)) = appointments d"
  by (simp_all add: find_or_create_customer_def Let_def insert_customer_frame)

lemma get_or_create_customer_frame:
  "businesses (fst (get_or_create_customer d b args)) = businesses d"
  "appointments (fst (get_or_create_customer d b args)) = appointments d"
  "services (fst (get_or_create_customer d b args)) = services d"
  by (simp_all add: get_or_create_customer_def update_customer_name_frame insert_customer_frame
      split_def Let_def split: option.split)

lemma business_exists_cong: "businesses d' = businesses d \<Longrightarrow> business_exists d' b = business_exists d b"
  by (simp add: business_exists_def)

lemma select_business_cong: "businesses d' = businesses d \<Longrightarrow> select_business d' b = select_business d b"
  by (simp add: select_business_def)

lemma select_service_cong: "services d' = services d \<Longrightarrow> select_service env d' b s = select_service env d b s"
  by (simp add: select_service_def)

lemma insert_appointment_accepted:
  assumes "business_exists d b"
  shows "insert_appointment d b cu sv ca n (Some p) (Some t) du nt =
     (d\<lparr>appointments := appointments d @
          [\<lparr>a_id = next_id d, a_business_id = b, a_customer_id = cu, a_service_id = sv,
            a_call_id = ca, a_customer_name = n, a_customer_phone = p, scheduled_at = t,
            duration_minutes = (case du of None \<Rightarrow> 30 | Some m \<Rightarrow> m),
            status = ''confirmed'', a_notes = nt\<rparr>],
        next_id := Suc (next_id d)\<rparr>,
      Some \<lparr>a_id = next_id d, a_business_id = b, a_customer_id = cu, a_service_id = sv,
            a_call_id = ca, a_customer_name = n, a_customer_phone = p, scheduled_at = t,
            duration_minutes = (case du of None \<Rightarrow> 30 | Some m \<Rightarrow> m),
            status = ''confirmed'', a_notes = nt\<rparr>)"
  using assms by (simp add: insert_appointment_def Let_def)

lemma insert_appointment_row:
  "insert_appointment d b cu sv ca n p t du nt = (d', Some a) \<Longrightarrow>
   appointments d' = appointments d @ [a] \<and> customers d' = customers d \<and>
   a_customer_id a = cu \<and> a_service_id a = sv \<and>
   duration_minutes a = (case du of None \<Rightarrow> 30 | Some m \<Rightarrow> m) \<and> status a = ''confirmed'' \<and>
   Some (scheduled_at a) = t"
  by (auto simp: insert_appointment_def Let_def split: option.splits if_splits)

lemma insert_appointment_refused:
  "insert_appointment d b cu sv ca n p t du nt = (d', None) \<Longrightarrow> d' = d"
  by (auto simp: insert_appointment_def Let_def split: option.splits if_splits)

lemma update_call_frame:
  "appointments (update_call d c u) = appointments d" "customers (update_call d c u) = customers d"
  by (simp_all add: update_call_def)

text \<open>
  The stream handlers book whatever the store accepts: availability is not consulted, the
  row has the default duration and no service.
\<close>

lemma bookAppointment_accepts:
  assumes "business_exists d bid" and "arg_customer_phone args = Some p"
    and "pg_timestamp env (tmpl (arg_date args) @ ''T'' @ tmpl (arg_time args) @ '':00'') = Some t"
  shows "r_success (snd (bookAppointment env d bid cid (Some args))) = Some True \<and>
         (\<exists>a. appointments (fst (bookAppointment env d bid cid (Some args))) = appointments d @ [a] \<and>
              scheduled_at a = t \<and> status a = ''confirmed'' \<and> duration_minutes a = 30 \<and>
              a_service_id a = None)"
proof -
  obtain d1 customer where fc: "find_or_create_customer d bid args = (d1, customer)"
    by (cases "find_or_create_customer d bid args")
  have d1: "businesses d1 = businesses d" "appointments d1 = appointments d"
    using find_or_create_customer_frame [of d bid args] fc by simp_all
  have ex: "business_exists d1 bid"
    using assms(1) business_exists_cong [OF d1(1), of bid] by simp
  obtain d2 appointment where ins:
    "insert_appointment d1 bid (map_option c_id customer) None cid (arg_customer_name args)
       (Some p) (Some t) None (or_null (arg_notes args)) = (d2, appointment)"
    by (cases "insert_appointment d1 bid (map_option c_id customer) None cid
       (arg_customer_name args) (Some p) (Some t) None (or_null (arg_notes args))")
  have "appointment \<noteq> None"
    using ins ex by (auto simp: insert_appointment_def Let_def)
  then obtain a where a: "appointment = Some a"
    by auto
  from insert_appointment_row [OF ins [unfolded a]]
  have row: "appointments d2 = appointments d1 @ [a]" "a_service_id a = None"
    "duration_minutes a = 30" "status a = ''confirmed''" "scheduled_at a = t"
    by simp_all
  have res: "bookAppointment env d bid cid (Some args) =
      (case cid of None \<Rightarrow> d2 | Some c \<Rightarrow> update_call d2 c (Outcome ''booked'' ''book_appointment''),
       obj\<lparr>r_success := Some True, r_message := Some (confirmation_message args),
           r_appointment_id := Some (a_id a)\<rparr>)"
    using assms(2,3) by (simp add: bookAppointment_object fc ins a)
  have "appointments (fst (bookAppointment env d bid cid (Some args))) = appointments d @ [a]"
    using row(1) d1(2) by (simp add: res update_call_frame split: option.split)
  with row show ?thesis
    by (simp add: res)
qed

lemma insert_appointment_frame:
  "customers (fst (insert_appointment d b cu sv ca n p t du nt)) = customers d"
  "businesses (fst (insert_appointment d b cu sv ca n p t du nt)) = businesses d"
  by (simp_all add: insert_appointment_def Let_def split: option.split)

lemma bookAppointment_keeps_customer:
  assumes "select_customer d bid (arg_customer_phone args) = Some c"
  shows "customers (fst (bookAppointment env d bid cid (Some args))) = customers d"
proof -
  have fc: "find_or_create_customer d bid args = (d, Some c)"
    using assms by (simp add: find_or_create_customer_def)
  show ?thesis
    by (simp add: bookAppointment_object fc split_def Let_def insert_appointment_frame
        update_call_frame split: option.split)
qed

text \<open>The booking service re-validates, and writes nothing when it refuses.\<close>

lemma booking_bookAppointment_refuses:
  assumes "r_slots (booking_checkAvailability env d bid (arg_date args)) = Some slots"
    and "\<not> slots_include slots (arg_time args)"
  shows "booking_bookAppointment env d bid args =
     (d, Inr (obj\<lparr>r_success := Some False,
        r_error := Some ''This time slot is no longer available. Please choose another time.''\<rparr>))"
  using assms by (simp add: booking_bookAppointment_def)

lemma booking_bookAppointment_validated:
  assumes "appointments (fst (booking_bookAppointment env d bid args)) \<noteq> appointments d"
  shows "\<exists>slots t. r_slots (booking_checkAvailability env d bid (arg_date args)) = Some slots \<and>
           arg_time args = Some t \<and> t \<in> set slots"
proof (cases "r_slots (booking_checkAvailability env d bid (arg_date args))")
  case None
  with assms show ?thesis
    by (simp add: booking_bookAppointment_def)
next
  case (Some slots)
  show ?thesis
  proof (cases "slots_include slots (arg_time args)")
    case True
    with Some show ?thesis
      by (auto simp: slots_include_def split: option.splits)
  next
    case False
    with Some assms show ?thesis
      by (simp add: booking_bookAppointment_refuses)
  qed
qed

text \<open>The booking service's customer: the existing row, renamed, or a new row.\<close>

lemma get_or_create_customer_existing:
  assumes "select_customer d bid (arg_customer_phone args) = Some c"
  shows "snd (get_or_create_customer d bid args) = Some (c_id c) \<and>
         customers (fst (get_or_create_customer d bid args)) =
           map (\<lambda>x. if c_id x = c_id c \<and> truthy (arg_customer_name args)
                     then x\<lparr>c_name := arg_customer_name args\<rparr> else x) (customers d)"
  using assms by (simp add: get_or_create_customer_def update_customer_name_def map_idI)

lemma get_or_create_customer_new:
  assumes "select_customer d bid (arg_customer_phone args) = None"
    and "snd (get_or_create_customer d bid args) = Some i"
  shows "\<exists>c. customers (fst (get_or_create_customer d bid args)) = customers d @ [c] \<and>
             c_id c = i \<and> c_business_id c = bid \<and> Some (c_phone c) = arg_customer_phone args \<and>
             c_name c = arg_customer_name args"
proof -
  obtain d' newCustomer where ins:
    "insert_customer d bid (arg_customer_phone args) (arg_customer_name args) = (d', newCustomer)"
    by (cases "insert_customer d bid (arg_customer_phone args) (arg_customer_name args)")
  have g: "get_or_create_customer d bid args = (d', map_option c_id newCustomer)"
    using assms(1) ins by (simp add: get_or_create_customer_def)
  with assms(2) obtain c where c: "newCustomer = Some c" "c_id c = i"
    by (cases newCustomer) simp_all
  from insert_customer_row [OF ins [unfolded c(1)]] c(2) g show ?thesis
    by simp
qed

text \<open>
  What the booking service persists: the customer of the upsert, the service of the
  fuzzy match (none when it fails or no name is given), the tenant's slot duration.
\<close>

lemma booking_bookAppointment_created:
  assumes "snd (booking_bookAppointment env d bid args) = Inr r" and "r_appointment r = Some a"
  shows "appointments (fst (booking_bookAppointment env d bid args)) = appointments d @ [a] \<and>
         customers (fst (booking_bookAppointment env d bid args)) =
           customers (fst (get_or_create_customer d bid args)) \<and>
         a_customer_id a = snd (get_or_create_customer d bid args) \<and>
         a_service_id a = get_service_id env d bid args \<and>
         duration_minutes a =
           or_default (case select_business d bid of None \<Rightarrow> None
                       | Some b \<Rightarrow> slot_duration_minutes b) 30 \<and>
         status a = ''confirmed''"
proof -
  obtain d1 customerId where gc: "get_or_create_customer d bid args = (d1, customerId)"
    by (cases "get_or_create_customer d bid args")
  have d1: "businesses d1 = businesses d" "appointments d1 = appointments d"
    "services d1 = services d"
    using get_or_create_customer_frame [of d bid args] gc by simp_all
  have biz: "select_business d1 bid = select_business d bid"
    by (rule select_business_cong [OF d1(1)])
  have svc: "get_service_id env d1 bid args = get_service_id env d bid args"
    using select_service_cong [OF d1(3), of env bid] by (simp add: get_service_id_def)
  obtain slots where slots: "r_slots (booking_checkAvailability env d bid (arg_date args)) = Some slots"
    using assms(1) by (cases "r_slots (booking_checkAvailability env d bid (arg_date args))")
      (simp_all add: booking_bookAppointment_def)
  have inc: "slots_include slots (arg_time args)"
  proof (rule ccontr)
    assume "\<not> slots_include slots (arg_time args)"
    from booking_bookAppointment_refuses [OF slots this] assms show False
      by auto
  qed
  let ?tz = "case select_business d bid of
               None \<Rightarrow> ''America/New_York''
             | Some b \<Rightarrow> if truthy (timezone b) then tmpl (timezone b) else ''America/New_York''"
  let ?dur = "or_default (case select_business d bid of None \<Rightarrow> None
                          | Some b \<Rightarrow> slot_duration_minutes b) 30"
  obtain t where t: "js_Date env (tmpl (arg_date args) @ ''T'' @ tmpl (arg_time args) @ '':00'') = Some t"
    using assms(1) slots inc
    by (cases "js_Date env (tmpl (arg_date args) @ ''T'' @ tmpl (arg_time args) @ '':00'')")
      (simp_all add: booking_bookAppointment_def gc)
  obtain d2 appointment where ins:
    "insert_appointment d1 bid customerId (get_service_id env d bid args) (arg_callId args)
       (arg_customer_name args) (arg_customer_phone args) (Some (fromZonedTime env t ?tz))
       (Some ?dur) (or_null (arg_notes args)) = (d2, appointment)"
    by (cases "insert_appointment d1 bid customerId (get_service_id env d bid args) (arg_callId args)
       (arg_customer_name args) (arg_customer_phone args) (Some (fromZonedTime env t ?tz))
       (Some ?dur) (or_null (arg_notes args))")
  have res: "booking_bookAppointment env d bid args =
      (case appointment of
         None \<Rightarrow> (d2, Inr (obj\<lparr>r_success := Some False,
                               r_error := Some ''Failed to create appointment''\<rparr>))
       | Some a' \<Rightarrow> (d2, Inr (obj\<lparr>r_success := Some True,
                                 r_message := Some (confirmation_message args),
                                 r_appointment := Some a'\<rparr>)))"
    using slots inc t ins by (simp add: booking_bookAppointment_def gc biz svc)
  have a: "appointment = Some a"
    using assms res by (cases appointment) auto
  from insert_appointment_row [OF ins [unfolded a]]
  have row: "appointments d2 = appointments d1 @ [a]" "customers d2 = customers d1"
    "a_customer_id a = customerId" "a_service_id a = get_service_id env d bid args"
    "duration_minutes a = ?dur" "status a = ''confirmed''"
    by simp_all
  show ?thesis
    using row d1(2) by (simp add: res a gc)
qed

lemma salon_db_fields:
  "businesses salon_db = [salon, studio]" "appointments salon_db = [booked_0940]"
  "customers salon_db = [alice]" "services salon_db = [haircut]"
  "blackout_dates salon_db = [(7, 14)]" "calls salon_db = []" "calls_log salon_db = []"
  "next_id salon_db = 100"
  by (simp_all add: salon_db_def)

lemma salon_has_business: "business_exists salon_db 7" "business_exists salon_db 8"
  by (simp_all add: business_exists_def store_defs)

lemma relay_bob_0940:
  "snd (bookAppointment january_2024 salon_db 7 None (Some bob_0940)) =
     obj\<lparr>r_success := Some True,
         r_message := Some ''Appointment confirmed for Bob on 2024-01-08 at 09:40'',
         r_appointment_id := Some 101\<rparr> \<and>
   appointments (fst (bookAppointment january_2024 salon_db 7 None (Some bob_0940))) =
     [booked_0940,
      \<lparr>a_id = 101, a_business_id = 7, a_customer_id = Some 100, a_service_id = None,
       a_call_id = None, a_customer_name = Some ''Bob'', a_customer_phone = ''+15550111'',
       scheduled_at = 639600000, duration_minutes = 30, status = ''confirmed'',
       a_notes = None\<rparr>]"
proof -
  have nobody: "select_customer salon_db 7 (Some ''+15550111'') = None"
    by (simp add: select_customer_def single_row_def tmpl_def salon_db_fields alice_def)
  have ts: "pg_timestamp january_2024 ''2024-01-08T09:40:00'' = Some 639600000"
    by (simp add: calendar_defs)
  show ?thesis
    using salon_has_business(1)
    by (simp add: bookAppointment_object find_or_create_customer_def nobody ts bob_0940_def no_args_def tmpl_def or_null_def
        truthy_def insert_customer_def insert_appointment_def Let_def confirmation_message_def
        salon_db_fields alice_def business_exists_def)
qed

lemma studio_monday_availability:
  "r_slots (booking_checkAvailability january_2024 salon_db 8 (Some ''2024-01-08'')) =
   Some [''09:00'', ''10:10'', ''11:20'', ''12:30'', ''13:40'', ''14:50'', ''16:00'']"
proof -
  have blackout: "select_blackout january_2024 salon_db 8 (Some ''2024-01-08'') = None"
    by (simp add: select_blackout_def single_row_def tmpl_def calendar_defs salon_db_fields)
  have day: "booking_dayOfWeek january_2024 (Some ''2024-01-08'') = Some ''monday''"
    by (simp add: booking_dayOfWeek_def new_Date_def days_def calendar_defs)
  have hours: "lookup_hours studio ''monday'' =
      Some \<lparr>dh_enabled = True, dh_start = (9, 0), dh_end = (17, 0)\<rparr>"
    by (simp add: lookup_hours_def store_defs)
  have appts: "select_appointments january_2024 salon_db 8 (Some ''2024-01-08'') = Some []"
    by (simp add: select_appointments_def day_window_def tmpl_def calendar_defs salon_db_fields
        booked_0940_def)
  have names: "map slotTimeStr [540, 610, 680, 750, 820, 890, 960] =
      [''09:00'', ''10:10'', ''11:20'', ''12:30'', ''13:40'', ''14:50'', ''16:00'']"
    by code_simp
  have slots: "generate_slots january_2024 (Some ''2024-01-08'') studio
      \<lparr>dh_enabled = True, dh_start = (9, 0), dh_end = (17, 0)\<rparr> (Some []) =
      [''09:00'', ''10:10'', ''11:20'', ''12:30'', ''13:40'', ''14:50'', ''16:00'']"
    using names
    by (simp add: generate_slots_def slot_loop_step slot_loop_stop or_default_def
        hasConflict_no_appointments studio_def)
  show ?thesis
    by (simp add: booking_checkAvailability_def studio_exists blackout day hours appts slots
        tmpl_def Let_def)
qed

lemma booking_bob_0940:
  "booking_bookAppointment january_2024 salon_db 7 bob_0940 =
     (salon_db, Inr (obj\<lparr>r_success := Some False,
        r_error := Some ''This time slot is no longer available. Please choose another time.''\<rparr>))"
  using salon_monday_availability
  by (simp add: booking_bookAppointment_def get_or_create_customer_def get_service_id_def bob_0940_def no_args_def slots_include_def)

lemma relay_alicia_1020:
  "customers (fst (bookAppointment january_2024 salon_db 7 None (Some alicia_1020))) = [alice] \<and>
   map a_customer_id (appointments (fst (bookAppointment january_2024 salon_db 7 None (Some alicia_1020)))) =
     [Some 10, Some 10] \<and>
   r_success (snd (bookAppointment january_2024 salon_db 7 None (Some alicia_1020))) = Some True"
proof -
  have found: "select_customer salon_db 7 (Some ''+15550100'') = Some alice"
    by (simp add: select_customer_def single_row_def tmpl_def salon_db_fields alice_def)
  have ts: "pg_timestamp january_2024 ''2024-01-08T10:20:00'' = Some 642000000"
    by (simp add: calendar_defs)
  have ids: "c_id alice = 10" "a_customer_id booked_0940 = Some 10"
    by (simp_all add: alice_def booked_0940_def)
  show ?thesis
    using salon_has_business(1)
    by (simp add: bookAppointment_object find_or_create_customer_def found ts alicia_1020_def no_args_def tmpl_def or_null_def
        truthy_def insert_appointment_def Let_def salon_db_fields ids)
qed

lemma booking_alicia_1020:
  "customers (fst (booking_bookAppointment january_2024 salon_db 7 alicia_1020)) =
     [alice\<lparr>c_name := Some ''Alicia''\<rparr>] \<and>
   map a_customer_id (appointments (fst (booking_bookAppointment january_2024 salon_db 7 alicia_1020))) =
     [Some 10, Some 10]"
proof -
  have found: "select_customer salon_db 7 (Some ''+15550100'') = Some alice"
    by (simp add: select_customer_def single_row_def tmpl_def salon_db_fields alice_def)
  have ts: "js_Date january_2024 ''2024-01-08T10:20:00'' = Some 642000000"
    by (simp add: calendar_defs)
  have ids: "c_id alice = 10" "a_customer_id booked_0940 = Some 10"
    by (simp_all add: alice_def booked_0940_def)
  have biz: "select_business (update_customer_name salon_db 10 (Some ''Alicia'')) 7 = Some salon"
    using salon_exists by (simp add: select_business_def update_customer_name_def)
  have ex: "business_exists (update_customer_name salon_db 10 (Some ''Alicia'')) 7"
    using salon_has_business(1) by (simp add: business_exists_def update_customer_name_def)
  have upd: "customers (update_customer_name salon_db 10 (Some ''Alicia'')) =
      [alice\<lparr>c_name := Some ''Alicia''\<rparr>]"
    "appointments (update_customer_name salon_db 10 (Some ''Alicia'')) = [booked_0940]"
    by (simp_all add: update_customer_name_def salon_db_fields ids)
  show ?thesis
    using salon_monday_availability ex
    by (simp add: booking_bookAppointment_def get_or_create_customer_def get_service_id_def alicia_1020_def no_args_def slots_include_def
        found ts ids biz upd tmpl_def or_null_def truthy_def insert_appointment_def Let_def)
qed

lemma relay_bob_haircut:
  "map (\<lambda>a. (a_business_id a, a_service_id a, duration_minutes a))
     (appointments (fst (bookAppointment january_2024 salon_db 8 None (Some bob_haircut)))) =
     [(7, None, 30), (8, None, 30)] \<and>
   r_success (snd (bookAppointment january_2024 salon_db 8 None (Some bob_haircut))) = Some True"
proof -
  have nobody: "select_customer salon_db 8 (Some ''+15550111'') = None"
    by (simp add: select_customer_def single_row_def tmpl_def salon_db_fields alice_def)
  have ts: "pg_timestamp january_2024 ''2024-01-08T09:00:00'' = Some 637200000"
    by (simp add: calendar_defs)
  have old: "a_business_id booked_0940 = 7" "a_service_id booked_0940 = None"
    "duration_minutes booked_0940 = 30"
    by (simp_all add: booked_0940_def)
  show ?thesis
    using salon_has_business(2)
    by (simp add: bookAppointment_object find_or_create_customer_def nobody ts bob_haircut_def no_args_def tmpl_def or_null_def
        truthy_def insert_customer_def insert_appointment_def Let_def salon_db_fields alice_def
        business_exists_def old)
qed

lemma booking_bob_haircut:
  "map (\<lambda>a. (a_business_id a, a_service_id a, duration_minutes a))
     (appointments (fst (booking_bookAppointment january_2024 salon_db 8 bob_haircut))) =
     [(7, None, 30), (8, Some 30, 60)]"
proof -
  let ?bob = "\<lparr>c_id = 100, c_business_id = 8, c_phone = ''+15550111'', c_name = Some ''Bob''\<rparr>"
  let ?d1 = "salon_db\<lparr>customers := [alice, ?bob], next_id := 101\<rparr>"
  have nobody: "select_customer salon_db 8 (Some ''+15550111'') = None"
    by (simp add: select_customer_def single_row_def tmpl_def salon_db_fields alice_def)
  have ins: "insert_customer salon_db 8 (Some ''+15550111'') (Some ''Bob'') = (?d1, Some ?bob)"
    using salon_has_business(2)
    by (simp add: insert_customer_def Let_def salon_db_fields alice_def)
  have svc: "select_service january_2024 ?d1 8 ''Haircut'' = Some haircut"
    by (simp add: select_service_def single_row_def salon_db_fields haircut_def january_2024_def)
  have biz: "select_business ?d1 8 = Some studio"
    using studio_exists by (simp add: select_business_def)
  have ex: "business_exists ?d1 8"
    using salon_has_business(2) by (simp add: business_exists_def)
  have ts: "js_Date january_2024 ''2024-01-08T09:00:00'' = Some 637200000"
    by (simp add: calendar_defs)
  have old: "a_business_id booked_0940 = 7" "a_service_id booked_0940 = None"
    "duration_minutes booked_0940 = 30"
    by (simp_all add: booked_0940_def)
  have vals: "s_id haircut = 30" "slot_duration_minutes studio = Some 60"
    "timezone studio = Some ''America/New_York''"
    by (simp_all add: haircut_def studio_def)
  show ?thesis
    using studio_monday_availability ex
    by (simp add: booking_bookAppointment_def get_or_create_customer_def get_service_id_def bob_haircut_def no_args_def slots_include_def
        nobody ins svc biz ts old vals tmpl_def or_null_def truthy_def or_default_def
        insert_appointment_def Let_def salon_db_fields)
qed

text \<open>
  C1 (as it stands in the code): on Monday 2024-01-08 the salon's 09:40 is taken, and the
  availability that the booking service computes does not offer it. Asked to book 09:40
  for a new customer, \<^verbatim>\<open>bookAppointment\<close> of the stream handlers succeeds and leaves two
  confirmed appointments at the same instant; the booking service refuses the same
  request with its "no longer available" result and writes nothing.
\<close>

theorem C1_handlers_book_a_taken_slot:
  "r_slots (booking_checkAvailability january_2024 salon_db 7 (Some ''2024-01-08'')) =
     Some [''09:00'', ''10:20'', ''11:00'', ''11:40'', ''12:20'', ''13:00'', ''13:40'',
           ''14:20'', ''15:00'', ''15:40'', ''16:20''] \<and>
   r_success (snd (bookAppointment january_2024 salon_db 7 None (Some bob_0940))) = Some True \<and>
   map (\<lambda>a. (scheduled_at a, status a))
     (appointments (fst (bookAppointment january_2024 salon_db 7 None (Some bob_0940)))) =
     [(639600000, ''confirmed''), (639600000, ''confirmed'')] \<and>
   booking_bookAppointment january_2024 salon_db 7 bob_0940 =
     (salon_db, Inr (obj\<lparr>r_success := Some False,
        r_error := Some ''This time slot is no longer available. Please choose another time.''\<rparr>))"
  using salon_monday_availability relay_bob_0940 booking_bob_0940
  by (simp add: booked_0940_def)

text \<open>
  C7 (as it stands in the code): the salon knows the phone +15550100 under the name Alice.
  A booking for that phone under the name Alicia reuses the customer's id in the stream
  handlers and in the booking service and adds no customer row; the booking service
  stores the new name, the stream handlers keep the old one.
\<close>

theorem C7_handlers_keep_the_stored_name:
  "customers (fst (bookAppointment january_2024 salon_db 7 None (Some alicia_1020))) = [alice] \<and>
   map a_customer_id (appointments (fst (bookAppointment january_2024 salon_db 7 None (Some alicia_1020)))) =
     [Some 10, Some 10] \<and>
   r_success (snd (bookAppointment january_2024 salon_db 7 None (Some alicia_1020))) = Some True \<and>
   customers (fst (booking_bookAppointment january_2024 salon_db 7 alicia_1020)) =
     [alice\<lparr>c_name := Some ''Alicia''\<rparr>] \<and>
   map a_customer_id (appointments (fst (booking_bookAppointment january_2024 salon_db 7 alicia_1020))) =
     [Some 10, Some 10]"
  using relay_alicia_1020 booking_alicia_1020
  by simp

text \<open>
  C8 (as it stands in the code): the studio's slots last 60 minutes and it offers the
  service Haircut. A booking that names the service is persisted by the booking service
  with that service and a duration of 60 minutes; the stream handlers persist it with no
  service and the column's default of 30 minutes.
\<close>

theorem C8_handlers_ignore_service_and_duration:
  "slot_duration_minutes studio = Some 60 \<and>
   r_success (snd (bookAppointment january_2024 salon_db 8 None (Some bob_haircut))) = Some True \<and>
   map (\<lambda>a. (a_business_id a, a_service_id a, duration_minutes a))
     (appointments (fst (bookAppointment january_2024 salon_db 8 None (Some bob_haircut)))) =
     [(7, None, 30), (8, None, 30)] \<and>
   map (\<lambda>a. (a_business_id a, a_service_id a, duration_minutes a))
     (appointments (fst (booking_bookAppointment january_2024 salon_db 8 bob_haircut))) =
     [(7, None, 30), (8, Some 30, 60)]"
  using relay_bob_haircut booking_bob_haircut
  by (simp add: studio_def)


subsection \<open>The dispatcher\<close>

lemma checkAvailability_shape:
  "r_error (checkAvailability env d bid date) \<noteq> None \<or>
   r_available (checkAvailability env d bid date) \<noteq> None"
  by (auto simp: checkAvailability_def checkAvailability_try_def Let_def
      split: sum.split option.split)

lemma checkAvailability_caught:
  "checkAvailability_try env d bid date = Inl e \<Longrightarrow>
   checkAvailability env d bid date = obj\<lparr>r_error := Some ''Failed to check availability''\<rparr>"
  by (simp add: checkAvailability_def)

lemma bookAppointment_shape:
  "(r_success (snd (bookAppointment env d bid cid args)) = Some True \<and>
    r_appointment_id (snd (bookAppointment env d bid cid args)) \<noteq> None \<and>
    r_error (snd (bookAppointment env d bid cid args)) = None) \<or>
   (r_success (snd (bookAppointment env d bid cid args)) = Some False \<and>
    r_error (snd (bookAppointment env d bid cid args)) = Some ''Failed to book appointment'')"
proof (cases args)
  case None
  then show ?thesis
    by (simp add: bookAppointment_null)
next
  case (Some props)
  then show ?thesis
    by (simp add: bookAppointment_object Let_def split: prod.split option.split)
qed

lemma cancelAppointment_shape:
  "(r_success (snd (cancelAppointment env d bid args)) = Some True \<and>
    r_cancelled_count (snd (cancelAppointment env d bid args)) \<noteq> None) \<or>
   (r_success (snd (cancelAppointment env d bid args)) = Some False \<and>
    r_message (snd (cancelAppointment env d bid args)) = Some ''No appointment found to cancel'') \<or>
   (args = None \<and> r_success (snd (cancelAppointment env d bid args)) = Some False \<and>
    r_error (snd (cancelAppointment env d bid args)) = Some ''Failed to cancel appointment'')"
proof (cases args)
  case None
  then show ?thesis
    by (simp add: cancelAppointment_null)
next
  case (Some props)
  then show ?thesis
    by (simp add: cancelAppointment_object Let_def split: prod.split option.split)
qed

text \<open>
  The one exception that leaves the dispatcher: \<^verbatim>\<open>check_availability\<close> with the
  arguments \<^verbatim>\<open>null\<close>.
\<close>

lemma handleToolCall_raises_iff:
  "handleToolCall env d toolName args bid cid = Inl e \<longleftrightarrow>
   toolName = ''check_availability'' \<and> args = None \<and> e = TypeError"
  by (auto simp: handleToolCall_def split: option.splits)

text \<open>
  In every other case the dispatcher returns a result object that carries \<^verbatim>\<open>error\<close>,
  \<^verbatim>\<open>success\<close> or \<^verbatim>\<open>available\<close>: a name that is none of the four tools gives the
  error result for an unknown tool and leaves the store as it is; an exception inside
  \<^verbatim>\<open>checkAvailability\<close> becomes its error result; a booking whose insert the store
  refuses, a cancellation that finds nothing, and a booking or cancellation with the
  arguments \<^verbatim>\<open>null\<close> are \<^verbatim>\<open>success: false\<close>.
\<close>

lemma handleToolCall_returns:
  assumes "toolName = ''check_availability'' \<Longrightarrow> args \<noteq> None"
  shows "\<exists>d' r. handleToolCall env d toolName args bid cid = Inr (d', r) \<and>
     (r_error r \<noteq> None \<or> r_success r \<noteq> None \<or> r_available r \<noteq> None) \<and>
     (toolName \<notin> set [''check_availability'', ''book_appointment'', ''cancel_appointment'',
                        ''transfer_to_human''] \<longrightarrow>
        d' = d \<and> r = obj\<lparr>r_error := Some ''Unknown tool''\<rparr>) \<and>
     (toolName = ''check_availability'' \<longrightarrow>
        d' = d \<and>
        (\<forall>props e. args = Some props \<and> checkAvailability_try env d bid (arg_date props) = Inl e \<longrightarrow>
           r = obj\<lparr>r_error := Some ''Failed to check availability''\<rparr>)) \<and>
     (toolName = ''book_appointment'' \<longrightarrow>
        (r_success r = Some True \<and> r_appointment_id r \<noteq> None \<and> r_error r = None) \<or>
        (r_success r = Some False \<and> r_error r = Some ''Failed to book appointment'')) \<and>
     (toolName = ''cancel_appointment'' \<longrightarrow>
        (r_success r = Some True \<and> r_cancelled_count r \<noteq> None) \<or>
        (r_success r = Some False \<and> r_message r = Some ''No appointment found to cancel'') \<or>
        (args = None \<and> r_success r = Some False \<and>
         r_error r = Some ''Failed to cancel appointment'')) \<and>
     (toolName = ''transfer_to_human'' \<longrightarrow> d' = d \<and> r_success r = Some True)"
proof -
  consider (check) "toolName = ''check_availability''"
    | (book) "toolName = ''book_appointment''"
    | (cancel) "toolName = ''cancel_appointment''"
    | (transfer) "toolName = ''transfer_to_human''"
    | (unknown) "toolName \<notin> set [''check_availability'', ''book_appointment'',
                                  ''cancel_appointment'', ''transfer_to_human'']"
    by auto
  then show ?thesis
  proof cases
    case check
    with assms obtain props where props: "args = Some props"
      by auto
    have "handleToolCall env d toolName args bid cid =
        Inr (d, checkAvailability env d bid (arg_date props))"
      using check props by (simp add: handleToolCall_def)
    then show ?thesis
      using check props checkAvailability_shape [of env d bid "arg_date props"]
        checkAvailability_caught [of env d bid "arg_date props"]
      by auto
  next
    case book
    obtain d' r where dr: "bookAppointment env d bid cid args = (d', r)"
      by (cases "bookAppointment env d bid cid args")
    have call: "handleToolCall env d toolName args bid cid = Inr (d', r)"
      using book dr by (simp add: handleToolCall_def)
    have "(r_success r = Some True \<and> r_appointment_id r \<noteq> None \<and> r_error r = None) \<or>
        (r_success r = Some False \<and> r_error r = Some ''Failed to book appointment'')"
      using bookAppointment_shape [of env d bid cid args] dr by simp
    then show ?thesis
      using book call by auto
  next
    case cancel
    obtain d' r where dr: "cancelAppointment env d bid args = (d', r)"
      by (cases "cancelAppointment env d bid args")
    have call: "handleToolCall env d toolName args bid cid = Inr (d', r)"
      using cancel dr by (simp add: handleToolCall_def)
    have "(r_success r = Some True \<and> r_cancelled_count r \<noteq> None) \<or>
        (r_success r = Some False \<and> r_message r = Some ''No appointment found to cancel'') \<or>
        (args = None \<and> r_success r = Some False \<and>
         r_error r = Some ''Failed to cancel appointment'')"
      using cancelAppointment_shape [of env d bid args] dr by simp
    then show ?thesis
      using cancel call by auto
  next
    case transfer
    have "handleToolCall env d toolName args bid cid =
        Inr (d, obj\<lparr>r_success := Some True,
                    r_message := Some ''Transferring to human staff. Please hold.''\<rparr>)"
      using transfer by (simp add: handleToolCall_def)
    then show ?thesis
      using transfer by auto
  next
    case unknown
    have "handleToolCall env d toolName args bid cid = Inr (d, obj\<lparr>r_error := Some ''Unknown tool''\<rparr>)"
      using unknown by (simp add: handleToolCall_def)
    then show ?thesis
      using unknown by auto
  qed
qed

text \<open>
  C10 (as it stands in the code): the dispatcher does raise. When the model's argument
  string is the JSON value \<^verbatim>\<open>null\<close>, the case \<^verbatim>\<open>check_availability\<close> throws a
  \<^verbatim>\<open>TypeError\<close> out of \<^verbatim>\<open>handleToolCall\<close>, where it reads \<^verbatim>\<open>args.date\<close> outside any
  \<^verbatim>\<open>try\<close>. The same arguments sent to \<^verbatim>\<open>book_appointment\<close> and
  \<^verbatim>\<open>cancel_appointment\<close> end in the \<^verbatim>\<open>catch\<close> of the called function and give a
  \<^verbatim>\<open>success: false\<close> result with the store unchanged; an exception inside
  \<^verbatim>\<open>checkAvailability\<close> (here for Sunday 2024-01-07) gives its error result, and an
  unknown tool name gives the error result for an unknown tool.
\<close>

theorem C10_dispatcher_raises_on_null_arguments:
  "handleToolCall january_2024 salon_db ''check_availability'' None 7 None = Inl TypeError \<and>
   handleToolCall january_2024 salon_db ''book_appointment'' None 7 None =
     Inr (salon_db, obj\<lparr>r_success := Some False, r_error := Some ''Failed to book appointment''\<rparr>) \<and>
   handleToolCall january_2024 salon_db ''cancel_appointment'' None 7 None =
     Inr (salon_db, obj\<lparr>r_success := Some False, r_error := Some ''Failed to cancel appointment''\<rparr>) \<and>
   handleToolCall january_2024 salon_db ''check_availability''
       (Some (no_args\<lparr>arg_date := Some ''2024-01-07''\<rparr>)) 7 None =
     Inr (salon_db, obj\<lparr>r_error := Some ''Failed to check availability''\<rparr>) \<and>
   handleToolCall january_2024 salon_db ''reschedule_appointment'' None 7 None =
     Inr (salon_db, obj\<lparr>r_error := Some ''Unknown tool''\<rparr>)"
proof -
  have sunday: "checkAvailability january_2024 salon_db 7 (Some ''2024-01-07'') =
      obj\<lparr>r_error := Some ''Failed to check availability''\<rparr>"
    by (rule checkAvailability_caught [OF sunday_raises])
  show ?thesis
    by (simp add: handleToolCall_def bookAppointment_null cancelAppointment_null sunday)
qed

end
